theory Spec2Isabelle
  imports Complex_Main "HOL-Library.Log_Nat"
begin

section \<open>JavaScript values used by the controller\<close>

text \<open>
  A JavaScript value that may be \<^verbatim>\<open>undefined\<close> or \<^verbatim>\<open>null\<close> is an option.
  The source tests such values by truthiness: a string is truthy when it is defined and
  not empty, a number when it is defined and not zero. \<^verbatim>\<open>a || b\<close> is \<open>a\<close> when
  \<open>a\<close> is truthy and \<open>b\<close> otherwise. Numbers that count nodes are integers
  (\<open>int\<close>); where the source multiplies them, the rounding to a double is written out.
\<close>

definition truthy_str :: "string option \<Rightarrow> bool" where
  "truthy_str v = (case v of None \<Rightarrow> False | Some s \<Rightarrow> s \<noteq> [])"

definition or_str :: "string option \<Rightarrow> string \<Rightarrow> string" where
  "or_str v d = (case v of None \<Rightarrow> d | Some s \<Rightarrow> if s = [] then d else s)"

definition or_num :: "int option \<Rightarrow> int \<Rightarrow> int" where
  "or_num v d = (case v of None \<Rightarrow> d | Some n \<Rightarrow> if n = 0 then d else n)"

definition or_bool :: "bool option \<Rightarrow> bool \<Rightarrow> bool" where
  "or_bool v d = (case v of None \<Rightarrow> d | Some b \<Rightarrow> if b then True else d)"

section \<open>The provider gateway: src/platform/handlers/provisioner.js\<close>

text \<open>
  \<^verbatim>\<open>DEFAULT_NODE_SIZE = process.env.DO_DEFAULT_NODE_SIZE || "s-2vcpu-4gb"\<close> reads the
  process environment, which is a parameter here; \<^verbatim>\<open>DEFAULT_NODE_COUNT = 2\<close>.
\<close>

definition DEFAULT_NODE_SIZE :: "string option \<Rightarrow> string" where
  "DEFAULT_NODE_SIZE env_size = or_str env_size ''s-2vcpu-4gb''"

definition DEFAULT_NODE_COUNT :: int where
  "DEFAULT_NODE_COUNT = 2"

text \<open>
  The counts are JavaScript numbers with integer values, so \<^verbatim>\<open>count * 3\<close> is the
  exact product rounded to the nearest IEEE double, ties to the even significand, and
  infinite beyond the largest double. Up to \<open>2 ^ 53\<close> in absolute value every integer
  is a double and the product is exact. \<^verbatim>\<open>Math.max(x, 6)\<close> is then taken on the result.
\<close>

datatype js_number = Finite int | PlusInfinity | MinusInfinity

definition DOUBLE_MAX :: int where
  "DOUBLE_MAX = 2 ^ 1024 - 2 ^ 971"

definition round_to_even :: "int \<Rightarrow> int" where
  "round_to_even a =
     (let ulp = 2 ^ nat (bitlen a - 53);
          q = a div ulp;
          r = a mod ulp
      in (if ulp < 2 * r \<or> (2 * r = ulp \<and> odd q) then q + 1 else q) * ulp)"

definition double_of_int :: "int \<Rightarrow> js_number" where
  "double_of_int n =
     (if \<bar>n\<bar> \<le> 2 ^ 53 then Finite n
      else if DOUBLE_MAX < round_to_even \<bar>n\<bar>
      then (if 0 < n then PlusInfinity else MinusInfinity)
      else Finite (sgn n * round_to_even \<bar>n\<bar>))"

fun Math_max :: "js_number \<Rightarrow> js_number \<Rightarrow> js_number" where
  "Math_max (Finite a) (Finite b) = Finite (max a b)"
| "Math_max PlusInfinity y = PlusInfinity"
| "Math_max x PlusInfinity = PlusInfinity"
| "Math_max MinusInfinity y = y"
| "Math_max x MinusInfinity = x"

text \<open>
  The JSON body of a node-pool request. \<open>addNodePool\<close> always sends size, name, count
  and tags; \<open>updateNodePool\<close> sends count and size only when they are not
  \<^verbatim>\<open>undefined\<close>, and never name or tags. \<open>createDOKSCluster\<close> sends the cluster's
  first pool, without tags; its parameters \<^verbatim>\<open>nodeSize\<close> and \<^verbatim>\<open>nodeCount\<close> take their
  defaults only when they are \<^verbatim>\<open>undefined\<close>, and \<open>cluster_slug\<close> is the cluster name
  the function derives from the organization's name.
\<close>

record pool_body =
  body_size :: "string option"
  body_name :: "string option"
  body_count :: "int option"
  body_auto_scale :: bool
  body_min_nodes :: int
  body_max_nodes :: js_number
  body_tags :: "string list option"

definition createDOKSCluster_pool ::
  "string option \<Rightarrow> string \<Rightarrow> string option \<Rightarrow> int option \<Rightarrow> pool_body" where
  "createDOKSCluster_pool env_size cluster_slug nodeSize nodeCount =
     \<lparr> body_size = Some (case nodeSize of None \<Rightarrow> DEFAULT_NODE_SIZE env_size | Some s \<Rightarrow> s),
       body_name = Some (cluster_slug @ ''-pool''),
       body_count = Some (case nodeCount of None \<Rightarrow> DEFAULT_NODE_COUNT | Some n \<Rightarrow> n),
       body_auto_scale = True,
       body_min_nodes = 1,
       body_max_nodes =
         Math_max
           (double_of_int ((case nodeCount of None \<Rightarrow> DEFAULT_NODE_COUNT | Some n \<Rightarrow> n) * 3))
           (Finite 6),
       body_tags = None \<rparr>"

definition addNodePool_body ::
  "string option \<Rightarrow> string option \<Rightarrow> string option \<Rightarrow> int option \<Rightarrow> pool_body" where
  "addNodePool_body env_size name sz count =
     \<lparr> body_size = Some (or_str sz (DEFAULT_NODE_SIZE env_size)),
       body_name = name,
       body_count = Some (or_num count DEFAULT_NODE_COUNT),
       body_auto_scale = True,
       body_min_nodes = 1,
       body_max_nodes =
         Math_max (double_of_int (or_num count DEFAULT_NODE_COUNT * 3)) (Finite 6),
       body_tags = Some [''hanzo-managed''] \<rparr>"

definition updateNodePool_body :: "int option \<Rightarrow> string option \<Rightarrow> pool_body" where
  "updateNodePool_body count sz =
     \<lparr> body_size = sz,
       body_name = None,
       body_count = count,
       body_auto_scale = True,
       body_min_nodes = 1,
       body_max_nodes = Math_max (double_of_int (or_num count 3 * 3)) (Finite 6),
       body_tags = None \<rparr>"

text \<open>
  The calls made on one pool, in order: its creation (with its cluster, or added later)
  and its resizes, each with the count as the caller supplied it.
\<close>

datatype pool_call =
  ClusterPool string "string option" "int option"
| AddPool "string option" "string option" "int option"
| UpdatePool "int option" "string option"

fun sent_body :: "string option \<Rightarrow> pool_call \<Rightarrow> pool_body" where
  "sent_body env_size (ClusterPool cluster_slug nodeSize nodeCount) =
     createDOKSCluster_pool env_size cluster_slug nodeSize nodeCount"
| "sent_body env_size (AddPool name sz count) = addNodePool_body env_size name sz count"
| "sent_body env_size (UpdatePool count sz) = updateNodePool_body count sz"

fun supplied_count :: "pool_call \<Rightarrow> int option" where
  "supplied_count (ClusterPool cluster_slug nodeSize nodeCount) = nodeCount"
| "supplied_count (AddPool name sz count) = count"
| "supplied_count (UpdatePool count sz) = count"

fun is_resize :: "pool_call \<Rightarrow> bool" where
  "is_resize (UpdatePool count sz) = True"
| "is_resize c = False"

text \<open>
  The specification's side of the comparison: the ceiling it derives from a count, and a
  pool's most recent explicitly supplied count after a history of calls.
\<close>

definition spec_max_nodes :: "int \<Rightarrow> int" where
  "spec_max_nodes count = max (count * 3) 6"

fun spec_recent_count :: "pool_call list \<Rightarrow> int option" where
  "spec_recent_count [] = None"
| "spec_recent_count (c # cs) =
     (case spec_recent_count cs of
        Some k \<Rightarrow> Some k
      | None \<Rightarrow> supplied_count c)"

section \<open>The cluster record and the organization store\<close>

text \<open>
  The cluster record is the \<^verbatim>\<open>doks\<close> sub-document of an organization document:
  \<^verbatim>\<open>doks.{clusterId, clusterName, status, region, ha, endpoint, nodePools[], createdAt,
  provisionError}\<close>. Every field may be missing from a stored document, so every field
  is an option; the whole sub-document is missing (or \<^verbatim>\<open>null\<close>) when \<open>doks\<close> is
  \<open>None\<close>. Times are milliseconds since the epoch.
\<close>

record node_pool =
  poolId :: string
  pool_name :: string
  pool_size :: string
  pool_count :: int
  autoScale :: bool

record doks_record =
  clusterId :: "string option"
  clusterName :: "string option"
  status :: "string option"
  region :: "string option"
  ha :: "bool option"
  endpoint :: "string option"
  nodePools :: "node_pool list option"
  createdAt :: "int option"
  provisionError :: "string option"

record organization =
  org_id :: string
  org_name :: string
  doks :: "doks_record option"

type_synonym store = "string \<Rightarrow> organization option"

definition empty_doks :: doks_record where
  "empty_doks =
     \<lparr> clusterId = None, clusterName = None, status = None, region = None, ha = None,
       endpoint = None, nodePools = None, createdAt = None, provisionError = None \<rparr>"

text \<open>
  A partial update of an organization document: the dotted paths \<^verbatim>\<open>"doks.status"\<close>,
  \<^verbatim>\<open>"doks.region"\<close>, ... each set one field of the sub-document, and
  \<^verbatim>\<open>{ doks: null }\<close> clears it.
\<close>

datatype field_update =
  SetClusterId string
| SetClusterName string
| SetStatus "string option"
| SetRegion string
| SetHa bool
| SetEndpoint string
| SetNodePools "node_pool list"
| SetCreatedAt int
| SetProvisionError string

datatype store_update = SetFields "field_update list" | ClearDoks

fun apply_field :: "doks_record \<Rightarrow> field_update \<Rightarrow> doks_record" where
  "apply_field d (SetClusterId v) = d\<lparr>clusterId := Some v\<rparr>"
| "apply_field d (SetClusterName v) = d\<lparr>clusterName := Some v\<rparr>"
| "apply_field d (SetStatus v) = d\<lparr>status := v\<rparr>"
| "apply_field d (SetRegion v) = d\<lparr>region := Some v\<rparr>"
| "apply_field d (SetHa v) = d\<lparr>ha := Some v\<rparr>"
| "apply_field d (SetEndpoint v) = d\<lparr>endpoint := Some v\<rparr>"
| "apply_field d (SetNodePools v) = d\<lparr>nodePools := Some v\<rparr>"
| "apply_field d (SetCreatedAt v) = d\<lparr>createdAt := Some v\<rparr>"
| "apply_field d (SetProvisionError v) = d\<lparr>provisionError := Some v\<rparr>"

fun apply_update :: "doks_record option \<Rightarrow> store_update \<Rightarrow> doks_record option" where
  "apply_update d ClearDoks = None"
| "apply_update d (SetFields fs) =
     Some (foldl apply_field (case d of None \<Rightarrow> empty_doks | Some r \<Rightarrow> r) fs)"

text \<open>
  Modelled from the spec: \<^verbatim>\<open>orgCtrl.getOneById\<close> and \<^verbatim>\<open>orgCtrl.updateOneById\<close> of
  \<^verbatim>\<open>controllers/organization.js\<close>, which is not among the sources. The specification
  describes them as read-one-by-id and update-one-by-id (partial field update) on the
  organization document; an update of an unknown id changes nothing. Reads and writes of
  the store do not fail in this model.
\<close>

definition getOneById :: "store \<Rightarrow> string \<Rightarrow> organization option" where
  "getOneById db orgId = db orgId"

definition updateOneById :: "store \<Rightarrow> string \<Rightarrow> store_update \<Rightarrow> store" where
  "updateOneById db orgId u =
     (case db orgId of
        None \<Rightarrow> db
      | Some org \<Rightarrow> db(orgId := Some (org\<lparr>doks := apply_update (doks org) u\<rparr>)))"

text \<open>Optional chaining: \<^verbatim>\<open>org?.doks?.clusterId\<close> and \<^verbatim>\<open>org.doks?.status\<close>.\<close>

definition doks_clusterId :: "organization option \<Rightarrow> string option" where
  "doks_clusterId org =
     (case org of None \<Rightarrow> None
      | Some g \<Rightarrow> (case doks g of None \<Rightarrow> None | Some d \<Rightarrow> clusterId d))"

definition doks_status :: "organization option \<Rightarrow> string option" where
  "doks_status org =
     (case org of None \<Rightarrow> None
      | Some g \<Rightarrow> (case doks g of None \<Rightarrow> None | Some d \<Rightarrow> status d))"

definition doks_ha :: "organization option \<Rightarrow> bool option" where
  "doks_ha org =
     (case org of None \<Rightarrow> None
      | Some g \<Rightarrow> (case doks g of None \<Rightarrow> None | Some d \<Rightarrow> ha d))"

definition doks_nodePools :: "organization option \<Rightarrow> node_pool list" where
  "doks_nodePools org =
     (case org of None \<Rightarrow> []
      | Some g \<Rightarrow> (case doks g of None \<Rightarrow> []
          | Some d \<Rightarrow> (case nodePools d of None \<Rightarrow> [] | Some ps \<Rightarrow> ps)))"

section \<open>The lifecycle routes: src/unnamed/part_000\<close>

text \<open>
  What the provider returns: a cluster object and its node pools. A provider call that
  throws is \<open>Inl\<close> of the error's message; \<^verbatim>\<open>helper.handleError\<close> then answers the
  request with that error.
\<close>

record do_pool =
  dp_id :: string
  dp_name :: string
  dp_size :: string
  dp_count :: int
  dp_auto_scale :: bool

record do_cluster =
  dc_id :: string
  dc_name :: string
  dc_region_slug :: string
  dc_state :: string
  dc_endpoint :: string
  dc_ha :: bool
  dc_node_pools :: "do_pool list"

definition cached_pool :: "do_pool \<Rightarrow> node_pool" where
  "cached_pool p =
     \<lparr> poolId = dp_id p, pool_name = dp_name p, pool_size = dp_size p,
       pool_count = dp_count p, autoScale = dp_auto_scale p \<rparr>"

text \<open>
  Everything a handler does besides answering, in the order it does it: writes of the
  store, calls of the provider gateway, and usage events.
\<close>

datatype effect =
  StoreWrite string store_update
| CreateDOKSCluster string
| GetDOKSCluster string
| DeleteDOKSCluster string
| AddNodePool string pool_body
| UpdateNodePool string string pool_body
| DeleteNodePool string string
| UpgradeToHA string
| RecordUsageEvent string string

datatype response = Status nat | HandledError string

record outcome =
  response :: response
  stored :: store
  effects :: "effect list"

definition answer :: "response \<Rightarrow> store \<Rightarrow> effect list \<Rightarrow> outcome" where
  "answer r db es = \<lparr> response = r, stored = db, effects = es \<rparr>"

record provision_body =
  p_orgId :: "string option"
  p_region :: "string option"
  p_nodeSize :: "string option"
  p_nodeCount :: "int option"
  p_ha :: "bool option"

definition mark_provisioning :: "provision_body \<Rightarrow> int \<Rightarrow> store_update" where
  "mark_provisioning body now =
     SetFields [SetStatus (Some ''provisioning''), SetRegion (or_str (p_region body) ''sfo3''),
                SetHa (or_bool (p_ha body) False), SetCreatedAt now]"

definition cluster_info :: "do_cluster \<Rightarrow> store_update" where
  "cluster_info cluster =
     SetFields [SetClusterId (dc_id cluster), SetClusterName (dc_name cluster),
                SetRegion (dc_region_slug cluster),
                SetStatus (Some (if dc_state cluster = ''running'' then ''running''
                                 else ''provisioning'')),
                SetEndpoint (dc_endpoint cluster), SetHa (dc_ha cluster),
                SetNodePools (map cached_pool (dc_node_pools cluster))]"

definition provision_failed :: "string \<Rightarrow> store_update" where
  "provision_failed msg = SetFields [SetStatus (Some ''error''), SetProvisionError msg]"

text \<open>
  \<^verbatim>\<open>POST /provision\<close>. \<open>now\<close> is \<^verbatim>\<open>new Date()\<close>; \<open>created\<close> is what
  \<^verbatim>\<open>createDOKSCluster\<close> returns or throws.
\<close>

definition provision :: "store \<Rightarrow> provision_body \<Rightarrow> int \<Rightarrow> string + do_cluster \<Rightarrow> outcome" where
  "provision db body now created =
     (if \<not> truthy_str (p_orgId body) then answer (Status 400) db []
      else
        let orgId = or_str (p_orgId body) [] in
        (case getOneById db orgId of
           None \<Rightarrow> answer (Status 404) db []
         | Some org \<Rightarrow>
             if truthy_str (doks_clusterId (Some org)) \<and> doks_status (Some org) \<noteq> Some ''error''
             then answer (Status 409) db []
             else
               let db1 = updateOneById db orgId (mark_provisioning body now) in
               (case created of
                  Inl msg \<Rightarrow>
                    answer (HandledError msg)
                      (updateOneById db1 orgId (provision_failed msg))
                      [StoreWrite orgId (mark_provisioning body now),
                       CreateDOKSCluster orgId,
                       StoreWrite orgId (provision_failed msg)]
                | Inr cluster \<Rightarrow>
                    answer (Status 201)
                      (updateOneById db1 orgId (cluster_info cluster))
                      [StoreWrite orgId (mark_provisioning body now),
                       CreateDOKSCluster orgId,
                       StoreWrite orgId (cluster_info cluster),
                       RecordUsageEvent orgId ''cluster_provision''])))"

text \<open>\<^verbatim>\<open>GET /:orgId/status\<close>. \<open>got\<close> is what \<^verbatim>\<open>getDOKSCluster\<close> returns or throws.\<close>

definition status_refresh :: "string option \<Rightarrow> do_cluster \<Rightarrow> store_update" where
  "status_refresh newStatus cluster =
     SetFields [SetStatus newStatus, SetEndpoint (dc_endpoint cluster),
                SetNodePools (map cached_pool (dc_node_pools cluster))]"

definition getStatus :: "store \<Rightarrow> string \<Rightarrow> string + do_cluster \<Rightarrow> outcome" where
  "getStatus db orgId got =
     (let org = getOneById db orgId in
      if \<not> truthy_str (doks_clusterId org) then answer (Status 404) db []
      else
        let cid = or_str (doks_clusterId org) [] in
        (case got of
           Inl msg \<Rightarrow> answer (HandledError msg) db [GetDOKSCluster cid]
         | Inr cluster \<Rightarrow>
             let newStatus = (if dc_state cluster = ''running'' then Some ''running''
                              else doks_status org) in
             if newStatus \<noteq> doks_status org
             then answer (Status 200)
                    (updateOneById db orgId (status_refresh newStatus cluster))
                    [GetDOKSCluster cid, StoreWrite orgId (status_refresh newStatus cluster)]
             else answer (Status 200) db [GetDOKSCluster cid]))"

text \<open>
  The node-pool routes and the HA upgrade all start with the same readiness check:
  \<^verbatim>\<open>!org?.doks?.clusterId || org.doks.status !== "running"\<close>.
\<close>

definition not_ready :: "organization option \<Rightarrow> bool" where
  "not_ready org = (\<not> truthy_str (doks_clusterId org) \<or> doks_status org \<noteq> Some ''running'')"

definition addPoolRoute ::
  "string option \<Rightarrow> store \<Rightarrow> string \<Rightarrow> string option \<Rightarrow> string option \<Rightarrow> int option \<Rightarrow>
   string + do_pool \<Rightarrow> outcome" where
  "addPoolRoute env_size db orgId name sz count added =
     (let org = getOneById db orgId in
      if not_ready org then answer (Status 400) db []
      else
        let cid = or_str (doks_clusterId org) [];
            call = AddNodePool cid (addNodePool_body env_size name sz count) in
        (case added of
           Inl msg \<Rightarrow> answer (HandledError msg) db [call]
         | Inr pool \<Rightarrow>
             let pools = doks_nodePools org @ [cached_pool pool] in
             answer (Status 201)
               (updateOneById db orgId (SetFields [SetNodePools pools]))
               [call, StoreWrite orgId (SetFields [SetNodePools pools]),
                RecordUsageEvent orgId ''node_pool_add'']))"

definition updatePoolRoute ::
  "store \<Rightarrow> string \<Rightarrow> string \<Rightarrow> int option \<Rightarrow> string option \<Rightarrow> string + do_pool \<Rightarrow> outcome" where
  "updatePoolRoute db orgId pid count sz updated =
     (let org = getOneById db orgId in
      if not_ready org then answer (Status 400) db []
      else
        let cid = or_str (doks_clusterId org) [];
            call = UpdateNodePool cid pid (updateNodePool_body count sz) in
        (case updated of
           Inl msg \<Rightarrow> answer (HandledError msg) db [call]
         | Inr pool \<Rightarrow>
             let pools = map (\<lambda>p. if poolId p = pid
                                   then p\<lparr>pool_count := dp_count pool, pool_size := dp_size pool\<rparr>
                                   else p) (doks_nodePools org) in
             answer (Status 200)
               (updateOneById db orgId (SetFields [SetNodePools pools]))
               [call, StoreWrite orgId (SetFields [SetNodePools pools])]))"

definition deletePoolRoute :: "store \<Rightarrow> string \<Rightarrow> string \<Rightarrow> string + unit \<Rightarrow> outcome" where
  "deletePoolRoute db orgId pid deleted =
     (let org = getOneById db orgId in
      if not_ready org then answer (Status 400) db []
      else
        let cid = or_str (doks_clusterId org) [] in
        (case deleted of
           Inl msg \<Rightarrow> answer (HandledError msg) db [DeleteNodePool cid pid]
         | Inr _ \<Rightarrow>
             let pools = filter (\<lambda>p. poolId p \<noteq> pid) (doks_nodePools org) in
             answer (Status 204)
               (updateOneById db orgId (SetFields [SetNodePools pools]))
               [DeleteNodePool cid pid, StoreWrite orgId (SetFields [SetNodePools pools])]))"

definition upgradeHaRoute :: "store \<Rightarrow> string \<Rightarrow> string + do_cluster \<Rightarrow> outcome" where
  "upgradeHaRoute db orgId upgraded =
     (let org = getOneById db orgId in
      if not_ready org then answer (Status 400) db []
      else if or_bool (doks_ha org) False then answer (Status 409) db []
      else
        let cid = or_str (doks_clusterId org) [] in
        (case upgraded of
           Inl msg \<Rightarrow> answer (HandledError msg) db [UpgradeToHA cid]
         | Inr cluster \<Rightarrow>
             answer (Status 200)
               (updateOneById db orgId (SetFields [SetHa True]))
               [UpgradeToHA cid, StoreWrite orgId (SetFields [SetHa True]),
                RecordUsageEvent orgId ''ha_upgrade'']))"

text \<open>
  \<^verbatim>\<open>DELETE /:orgId\<close>. \<open>confirm\<close> is the query parameter \<^verbatim>\<open>req.query.confirm\<close>, which
  must be the string \<^verbatim>\<open>"true"\<close>; \<open>deleted\<close> is what \<^verbatim>\<open>deleteDOKSCluster\<close> returns or
  throws.
\<close>

definition mark_deleting :: store_update where
  "mark_deleting = SetFields [SetStatus (Some ''deleting'')]"

definition deleteCluster :: "store \<Rightarrow> string \<Rightarrow> string option \<Rightarrow> string + unit \<Rightarrow> outcome" where
  "deleteCluster db orgId confirm deleted =
     (let org = getOneById db orgId in
      if \<not> truthy_str (doks_clusterId org) then answer (Status 404) db []
      else if confirm \<noteq> Some ''true'' then answer (Status 400) db []
      else
        let cid = or_str (doks_clusterId org) [];
            db1 = updateOneById db orgId mark_deleting in
        (case deleted of
           Inl msg \<Rightarrow>
             answer (HandledError msg) db1
               [StoreWrite orgId mark_deleting, DeleteDOKSCluster cid]
         | Inr _ \<Rightarrow>
             answer (Status 204) (updateOneById db1 orgId ClearDoks)
               [StoreWrite orgId mark_deleting, DeleteDOKSCluster cid,
                RecordUsageEvent orgId ''cluster_delete'', StoreWrite orgId ClearDoks]))"

text \<open>A request to the router together with what the provider answers to it.\<close>

datatype request =
  Provision provision_body int "string + do_cluster"
| GetStatus string "string + do_cluster"
| AddPoolReq string "string option" "string option" "int option" "string + do_pool"
| UpdatePoolReq string string "int option" "string option" "string + do_pool"
| DeletePoolReq string string "string + unit"
| UpgradeHaReq string "string + do_cluster"
| DeleteClusterReq string "string option" "string + unit"

fun handle :: "string option \<Rightarrow> store \<Rightarrow> request \<Rightarrow> outcome" where
  "handle env_size db (Provision body now created) = provision db body now created"
| "handle env_size db (GetStatus orgId got) = getStatus db orgId got"
| "handle env_size db (AddPoolReq orgId name sz count added) =
     addPoolRoute env_size db orgId name sz count added"
| "handle env_size db (UpdatePoolReq orgId pid count sz updated) =
     updatePoolRoute db orgId pid count sz updated"
| "handle env_size db (DeletePoolReq orgId pid deleted) = deletePoolRoute db orgId pid deleted"
| "handle env_size db (UpgradeHaReq orgId upgraded) = upgradeHaRoute db orgId upgraded"
| "handle env_size db (DeleteClusterReq orgId confirm deleted) =
     deleteCluster db orgId confirm deleted"

fun run :: "string option \<Rightarrow> store \<Rightarrow> request list \<Rightarrow> store" where
  "run env_size db [] = db"
| "run env_size db (r # rs) = run env_size (stored (handle env_size db r)) rs"

section \<open>Pricing and cost: src/platform/handlers/provisioner.js and src/unnamed/part_001\<close>

text \<open>
  A size as the provider lists it, and the pricing record \<^verbatim>\<open>getDropletPricing\<close> builds
  from it. Prices are JavaScript numbers; they are modelled as \<open>real\<close>, so the rounding
  of IEEE doubles is not part of the model.
\<close>

record do_size =
  sz_slug :: string
  sz_price_monthly :: real
  sz_price_hourly :: real
  sz_vcpus :: int
  sz_memory :: int
  sz_disk :: int
  sz_description :: string

record pricing =
  slug :: string
  priceMonthly :: real
  priceHourly :: real
  vcpus :: int
  memory :: int
  disk :: int
  description :: string

definition pricing_of :: "do_size \<Rightarrow> pricing" where
  "pricing_of s =
     \<lparr> slug = sz_slug s, priceMonthly = sz_price_monthly s, priceHourly = sz_price_hourly s,
       vcpus = sz_vcpus s, memory = sz_memory s, disk = sz_disk s,
       description = sz_description s \<rparr>"

text \<open>
  \<open>listed\<close> is the answer to \<^verbatim>\<open>GET /sizes\<close>: the sizes, or the message of the error
  thrown. The result is \<open>Inr None\<close> for JavaScript's \<^verbatim>\<open>null\<close>.
\<close>

definition getDropletPricing :: "string \<Rightarrow> string + do_size list \<Rightarrow> string + pricing option" where
  "getDropletPricing sizeSlug listed =
     (case listed of
        Inl msg \<Rightarrow> Inl msg
      | Inr sizes \<Rightarrow>
          (case find (\<lambda>s. sz_slug s = sizeSlug) sizes of
             None \<Rightarrow> Inr None
           | Some s \<Rightarrow> Inr (Some (pricing_of s))))"

text \<open>
  The price cache is a map from size slug to the pricing record and the time it was
  fetched. \<open>now\<close> is \<^verbatim>\<open>Date.now()\<close> at the freshness test and \<open>later\<close> is
  \<^verbatim>\<open>Date.now()\<close> when the fetched record is stored. A lookup returns what the function
  returns (or throws), the cache afterwards, and the upstream calls it made: the slugs
  \<^verbatim>\<open>getDropletPricing\<close> was called with.
\<close>

record cache_entry =
  data :: pricing
  ts :: int

type_synonym price_cache = "string \<Rightarrow> cache_entry option"

definition HA_MONTHLY_COST :: real where
  "HA_MONTHLY_COST = 40"

definition CACHE_TTL :: int where
  "CACHE_TTL = 60 * 60 * 1000"

record lookup =
  returned :: "string + pricing option"
  cache_after :: price_cache
  upstream :: "string list"

definition getCachedPricing ::
  "price_cache \<Rightarrow> string \<Rightarrow> int \<Rightarrow> string + do_size list \<Rightarrow> int \<Rightarrow> lookup" where
  "getCachedPricing priceCache sizeSlug now listed later =
     (case (case priceCache sizeSlug of
              None \<Rightarrow> None
            | Some cached \<Rightarrow> if now - ts cached < CACHE_TTL then Some (data cached) else None) of
        Some hit \<Rightarrow>
          \<lparr> returned = Inr (Some hit), cache_after = priceCache, upstream = [] \<rparr>
      | None \<Rightarrow>
          (case getDropletPricing sizeSlug listed of
             Inl msg \<Rightarrow>
               \<lparr> returned = Inl msg, cache_after = priceCache, upstream = [sizeSlug] \<rparr>
           | Inr None \<Rightarrow>
               \<lparr> returned = Inr None, cache_after = priceCache, upstream = [sizeSlug] \<rparr>
           | Inr (Some d) \<Rightarrow>
               \<lparr> returned = Inr (Some d),
                 cache_after = priceCache(sizeSlug := Some \<lparr> data = d, ts = later \<rparr>),
                 upstream = [sizeSlug] \<rparr>))"

text \<open>
  A line item and a cost breakdown. The early return of \<^verbatim>\<open>calculateOrgCost\<close> builds
  an object with \<^verbatim>\<open>monthlyTotal\<close>, \<^verbatim>\<open>items\<close> and \<^verbatim>\<open>currency\<close> only, and an HA line item
  has a type and a total only, so the other fields are options.
\<close>

record line_item =
  item_type :: string
  item_pool :: "string option"
  item_size :: "string option"
  item_count :: "int option"
  unitPrice :: "real option"
  item_monthlyTotal :: real
  item_vcpus :: "int option"
  memoryMb :: "int option"
  diskGb :: "int option"

record cost_breakdown =
  cb_orgId :: "string option"
  cb_orgName :: "string option"
  cb_clusterId :: "string option"
  cb_clusterName :: "string option"
  cb_region :: "string option"
  cb_status :: "string option"
  items :: "line_item list"
  subtotal :: "real option"
  markupPercent :: "real option"
  markup :: "real option"
  monthlyTotal :: real
  currency :: string
  calculatedAt :: "int option"

definition zero_cost :: cost_breakdown where
  "zero_cost =
     \<lparr> cb_orgId = None, cb_orgName = None, cb_clusterId = None, cb_clusterName = None,
       cb_region = None, cb_status = None, items = [], subtotal = None, markupPercent = None,
       markup = None, monthlyTotal = 0, currency = ''USD'', calculatedAt = None \<rparr>"

definition nodes_item :: "node_pool \<Rightarrow> pricing \<Rightarrow> line_item" where
  "nodes_item pool pr =
     \<lparr> item_type = ''nodes'', item_pool = Some (pool_name pool),
       item_size = Some (pool_size pool), item_count = Some (pool_count pool),
       unitPrice = Some (priceMonthly pr),
       item_monthlyTotal = priceMonthly pr * of_int (pool_count pool),
       item_vcpus = Some (vcpus pr * pool_count pool),
       memoryMb = Some (memory pr * pool_count pool),
       diskGb = Some (disk pr * pool_count pool) \<rparr>"

definition ha_item :: line_item where
  "ha_item =
     \<lparr> item_type = ''ha_control_plane'', item_pool = None, item_size = None,
       item_count = None, unitPrice = None, item_monthlyTotal = HA_MONTHLY_COST,
       item_vcpus = None, memoryMb = None, diskGb = None \<rparr>"

text \<open>
  The loop over the node pools. Each iteration awaits one lookup; \<open>world i\<close> is what the
  \<open>i\<close>-th lookup sees: the clock at its freshness test, the provider's answer, and the
  clock when it stores. A lookup that throws ends the loop and the whole calculation.
\<close>

record world =
  clock :: int
  listed_sizes :: "string + do_size list"
  clock_later :: int

record pool_costs =
  pool_lines :: "string + line_item list"
  pool_cache :: price_cache
  pool_upstream :: "string list"

fun node_pool_costs :: "(nat \<Rightarrow> world) \<Rightarrow> nat \<Rightarrow> price_cache \<Rightarrow> node_pool list \<Rightarrow> pool_costs" where
  "node_pool_costs w i priceCache [] =
     \<lparr> pool_lines = Inr [], pool_cache = priceCache, pool_upstream = [] \<rparr>"
| "node_pool_costs w i priceCache (pool # pools) =
     (let l = getCachedPricing priceCache (pool_size pool) (clock (w i)) (listed_sizes (w i))
                (clock_later (w i)) in
      case returned l of
        Inl msg \<Rightarrow>
          \<lparr> pool_lines = Inl msg, pool_cache = cache_after l, pool_upstream = upstream l \<rparr>
      | Inr found \<Rightarrow>
          (let r = node_pool_costs w (Suc i) (cache_after l) pools in
           \<lparr> pool_lines =
               (case pool_lines r of
                  Inl msg \<Rightarrow> Inl msg
                | Inr lines \<Rightarrow>
                    Inr ((case found of None \<Rightarrow> [] | Some pr \<Rightarrow> [nodes_item pool pr]) @ lines)),
             pool_cache = pool_cache r,
             pool_upstream = upstream l @ pool_upstream r \<rparr>))"

text \<open>
  \<^verbatim>\<open>calculateOrgCost(org)\<close>. \<open>MARKUP_PERCENT\<close> is read from the process environment and
  \<open>today\<close> is \<^verbatim>\<open>new Date()\<close>; both are parameters.
\<close>

record calculation =
  cost :: "string + cost_breakdown"
  cost_cache :: price_cache
  cost_upstream :: "string list"

definition calculateOrgCost ::
  "real \<Rightarrow> int \<Rightarrow> (nat \<Rightarrow> world) \<Rightarrow> price_cache \<Rightarrow> organization option \<Rightarrow> calculation" where
  "calculateOrgCost MARKUP_PERCENT today w priceCache org =
     (if \<not> truthy_str (doks_clusterId org) \<or> doks_status org = Some ''error''
      then \<lparr> cost = Inr zero_cost, cost_cache = priceCache, cost_upstream = [] \<rparr>
      else
        let r = node_pool_costs w 0 priceCache (doks_nodePools org) in
        \<lparr> cost =
            (case pool_lines r of
               Inl msg \<Rightarrow> Inl msg
             | Inr lines \<Rightarrow>
                 (let its = lines @ (if or_bool (doks_ha org) False then [ha_item] else []);
                      sub = foldl (\<lambda>sum i. sum + item_monthlyTotal i) 0 its;
                      mk = sub * (MARKUP_PERCENT / 100) in
                  Inr \<lparr> cb_orgId = map_option org_id org,
                        cb_orgName = map_option org_name org,
                        cb_clusterId = doks_clusterId org,
                        cb_clusterName =
                          (case org of None \<Rightarrow> None
                           | Some g \<Rightarrow> (case doks g of None \<Rightarrow> None | Some d \<Rightarrow> clusterName d)),
                        cb_region =
                          (case org of None \<Rightarrow> None
                           | Some g \<Rightarrow> (case doks g of None \<Rightarrow> None | Some d \<Rightarrow> region d)),
                        cb_status = doks_status org,
                        items = its,
                        subtotal = Some sub,
                        markupPercent = Some MARKUP_PERCENT,
                        markup = Some mk,
                        monthlyTotal = sub + mk,
                        currency = ''USD'',
                        calculatedAt = Some today \<rparr>)),
          cost_cache = pool_cache r,
          cost_upstream = pool_upstream r \<rparr>)"

section \<open>The commit status notifier: src/monitor/handler/watchTaskRuns.js\<close>

text \<open>
  The string operations the notifier and the watcher use. \<open>replace_first\<close> is
  \<^verbatim>\<open>s.replace(pat, rep)\<close> with a string pattern: only the first occurrence is replaced.
  \<open>strip_github_host\<close> is \<^verbatim>\<open>s.replace(/https?:\/\/github\.com\//, "")\<close>: the leftmost
  match is removed, wherever it is. \<open>strip_suffix\<close> is a replace by the empty string of
  a pattern anchored at the end (\<^verbatim>\<open>/\.git$/\<close>, \<^verbatim>\<open>/\/$/\<close>). \<open>split_on\<close> is
  \<^verbatim>\<open>s.split(d)\<close>. \<open>toLowerCase\<close> lowers the letters A to Z, which covers the event
  reasons.
\<close>

fun starts_with :: "string \<Rightarrow> string \<Rightarrow> bool" where
  "starts_with [] s = True"
| "starts_with (p # ps) [] = False"
| "starts_with (p # ps) (c # cs) = (p = c \<and> starts_with ps cs)"

fun replace_first :: "string \<Rightarrow> string \<Rightarrow> string \<Rightarrow> string" where
  "replace_first pat rep [] = (if pat = [] then rep else [])"
| "replace_first pat rep (c # cs) =
     (if starts_with pat (c # cs) then rep @ drop (length pat) (c # cs)
      else c # replace_first pat rep cs)"

fun strip_github_host :: "string \<Rightarrow> string" where
  "strip_github_host [] = []"
| "strip_github_host (c # cs) =
     (if starts_with ''https://github.com/'' (c # cs) then drop 19 (c # cs)
      else if starts_with ''http://github.com/'' (c # cs) then drop 18 (c # cs)
      else c # strip_github_host cs)"

definition strip_suffix :: "string \<Rightarrow> string \<Rightarrow> string" where
  "strip_suffix pat s =
     (if starts_with (rev pat) (rev s) then take (length s - length pat) s else s)"

fun split_on :: "char \<Rightarrow> string \<Rightarrow> string list" where
  "split_on d [] = [[]]"
| "split_on d (c # cs) =
     (if c = d then [] # split_on d cs
      else (case split_on d cs of
              [] \<Rightarrow> [[c]]
            | part # parts \<Rightarrow> (c # part) # parts))"

definition element :: "'a list \<Rightarrow> nat \<Rightarrow> 'a option" where
  "element xs i = (if i < length xs then Some (xs ! i) else None)"

definition toLowerCase :: "string \<Rightarrow> string" where
  "toLowerCase s =
     map (\<lambda>c. case map_of (zip ''ABCDEFGHIJKLMNOPQRSTUVWXYZ'' ''abcdefghijklmnopqrstuvwxyz'') c of
               None \<Rightarrow> c
             | Some l \<Rightarrow> l) s"

text \<open>
  A TaskRun object as far as the monitor reads it: \<^verbatim>\<open>metadata.labels\<close> and
  \<^verbatim>\<open>spec.params\<close>, an array of \<^verbatim>\<open>{name, value}\<close>. Either may be missing.
\<close>

record task_run =
  labels :: "(string \<times> string) list option"
  params :: "(string \<times> string) list option"

datatype git_provider = Github | Gitlab | Bitbucket

record git_params =
  provider :: git_provider
  pat :: string
  repoUrl :: string
  revision :: string
  repoName :: string
  projectId :: string

text \<open>
  \<^verbatim>\<open>paramMap[p.name] = p.value\<close> in array order: a later parameter of the same name
  overwrites an earlier one.
\<close>

definition paramMap_of :: "(string \<times> string) list \<Rightarrow> string \<Rightarrow> string option" where
  "paramMap_of ps = map_of (rev ps)"

definition extractGitParams :: "task_run option \<Rightarrow> git_params option" where
  "extractGitParams taskRunObj =
     (case taskRunObj of
        None \<Rightarrow> None
      | Some t \<Rightarrow>
          (case params t of
             None \<Rightarrow> None
           | Some ps \<Rightarrow>
               (let paramMap = paramMap_of ps;
                    chosen =
                      (if truthy_str (paramMap ''githubpat'')
                       then Some (Github, or_str (paramMap ''githubpat'') [])
                       else if truthy_str (paramMap ''gitlabpat'')
                       then Some (Gitlab, or_str (paramMap ''gitlabpat'') [])
                       else if truthy_str (paramMap ''bitbucketpat'')
                       then Some (Bitbucket, or_str (paramMap ''bitbucketpat'') [])
                       else None)
                in case chosen of
                     None \<Rightarrow> None
                   | Some (prov, token) \<Rightarrow>
                       Some \<lparr> provider = prov, pat = token,
                              repoUrl = or_str (paramMap ''gitrepourl'') [],
                              revision = or_str (paramMap ''gitrevision'') [],
                              repoName = or_str (paramMap ''gitreponame'') [],
                              projectId = or_str (paramMap ''gitlabprojectid'') [] \<rparr>)))"

text \<open>
  An outbound request to a source-control provider. Each \<^verbatim>\<open>post...CommitStatus\<close>
  function makes at most one; a request that fails is logged and nothing else happens, so
  the list of requests made is the whole effect.
\<close>

record status_post =
  post_url :: string
  post_token :: string
  post_state :: string
  post_description :: string

definition postGithubCommitStatus ::
  "string \<Rightarrow> string \<Rightarrow> string \<Rightarrow> string \<Rightarrow> string \<Rightarrow> status_post list" where
  "postGithubCommitStatus token url sha state descr =
     (if token = [] \<or> url = [] \<or> sha = [] then []
      else
        let ownerRepo = strip_suffix ''/'' (strip_suffix ''.git'' (strip_github_host url)) in
        if ownerRepo = [] \<or> CHR ''/'' \<notin> set ownerRepo then []
        else [\<lparr> post_url = ''https://api.github.com/repos/'' @ ownerRepo @ ''/statuses/'' @ sha,
                 post_token = token, post_state = state, post_description = descr \<rparr>])"

definition postGitlabCommitStatus ::
  "string \<Rightarrow> string \<Rightarrow> string \<Rightarrow> string \<Rightarrow> string \<Rightarrow> status_post list" where
  "postGitlabCommitStatus token project sha state descr =
     (if token = [] \<or> project = [] \<or> sha = [] then []
      else
        let encodedProjectId = concat (map (\<lambda>c. if c = CHR ''/'' then ''%2F'' else [c]) project) in
        [\<lparr> post_url = ''https://gitlab.com/api/v4/projects/'' @ encodedProjectId
                        @ ''/statuses/'' @ sha,
            post_token = token, post_state = state, post_description = descr \<rparr>])"

definition postBitbucketCommitStatus ::
  "string \<Rightarrow> string \<Rightarrow> string \<Rightarrow> string \<Rightarrow> string \<Rightarrow> status_post list" where
  "postBitbucketCommitStatus token repoFullName sha state descr =
     (if token = [] \<or> repoFullName = [] \<or> sha = [] then []
      else
        [\<lparr> post_url = ''https://api.bitbucket.org/2.0/repositories/'' @ repoFullName
                        @ ''/commit/'' @ sha @ ''/statuses/build'',
            post_token = token, post_state = state, post_description = descr \<rparr>])"

definition isSuccess :: "string \<Rightarrow> bool" where
  "isSuccess reason = (reason = ''Succeeded'' \<or> reason = ''TaskRunCancelled'')"

definition reportBackupCommitStatus :: "task_run option \<Rightarrow> string \<Rightarrow> status_post list" where
  "reportBackupCommitStatus taskRunObj reason =
     (case extractGitParams taskRunObj of
        None \<Rightarrow> []
      | Some gitParams \<Rightarrow>
          if revision gitParams = [] \<or> revision gitParams = ''N/A'' then []
          else
            let descr = (if isSuccess reason then ''Pipeline completed successfully''
                         else ''Pipeline '' @ toLowerCase reason) in
            (case provider gitParams of
               Github \<Rightarrow>
                 postGithubCommitStatus (pat gitParams) (repoUrl gitParams) (revision gitParams)
                   (if isSuccess reason then ''success'' else ''failure'') descr
             | Gitlab \<Rightarrow>
                 postGitlabCommitStatus (pat gitParams)
                   (if projectId gitParams \<noteq> [] then projectId gitParams else repoName gitParams)
                   (revision gitParams)
                   (if isSuccess reason then ''success'' else ''failed'') descr
             | Bitbucket \<Rightarrow>
                 postBitbucketCommitStatus (pat gitParams) (repoName gitParams)
                   (revision gitParams)
                   (if isSuccess reason then ''SUCCESSFUL'' else ''FAILED'') descr))"

section \<open>The build event watcher: src/monitor/handler/watchTaskRuns.js\<close>

text \<open>
  An event as the subscription delivers it. A timestamp field is \<open>None\<close> when it is
  missing (or \<^verbatim>\<open>null\<close>, or empty); otherwise it holds what
  \<^verbatim>\<open>new Date(field).getTime()\<close> gives: a number of milliseconds, or \<open>NaN\<close> for a
  value that is not a date.
\<close>

datatype jsnum = Num int | NaN

record build_event =
  lastTimestamp :: "jsnum option"
  firstTimestamp :: "jsnum option"
  reason :: "string option"
  involvedObjectName :: string

definition eventTime_of :: "build_event \<Rightarrow> jsnum option" where
  "eventTime_of event =
     (case lastTimestamp event of
        Some t \<Rightarrow> Some t
      | None \<Rightarrow> (case firstTimestamp event of Some t \<Rightarrow> Some t | None \<Rightarrow> None))"

text \<open>
  \<^verbatim>\<open>if (eventTime && eventTime < now) return;\<close> A number is truthy when it is neither
  zero nor \<open>NaN\<close>.
\<close>

definition predates :: "int \<Rightarrow> build_event \<Rightarrow> bool" where
  "predates now event =
     (case eventTime_of event of
        None \<Rightarrow> False
      | Some NaN \<Rightarrow> False
      | Some (Num n) \<Rightarrow> n \<noteq> 0 \<and> n < now)"

definition watched_reasons :: "string list" where
  "watched_reasons = [''Failed'', ''Succeeded'', ''Error'', ''Started'', ''Running'',
                      ''TaskRunCancelled'', ''TaskRunTimeout'', ''TaskRunImagePullFailed'']"

definition terminal_reasons :: "string list" where
  "terminal_reasons = [''Succeeded'', ''Failed'', ''Error'', ''TaskRunCancelled'',
                       ''TaskRunTimeout'', ''TaskRunImagePullFailed'']"

text \<open>
  What handling one event does, in order: the lookup of the TaskRun, the post to the
  platform's telemetry endpoint, and the requests of the commit status notifier.
  \<open>found\<close> is what \<^verbatim>\<open>getTaskRun\<close> resolves to (\<open>None\<close> for \<^verbatim>\<open>null\<close>). Reading a
  label of a TaskRun without labels throws inside the promise callback, which ends the
  handling.
\<close>

datatype watch_effect =
  GetTaskRun string
| TelemetryPost string string
| CommitStatus status_post

definition process_event :: "build_event \<Rightarrow> task_run option \<Rightarrow> watch_effect list" where
  "process_event event found =
     (case reason event of
        None \<Rightarrow> []
      | Some r \<Rightarrow>
          if r \<in> set watched_reasons
          then GetTaskRun (involvedObjectName event) #
            (case found of
               None \<Rightarrow> []
             | Some taskRunObj \<Rightarrow>
                 (case labels taskRunObj of
                    None \<Rightarrow> []
                  | Some ls \<Rightarrow>
                      (let eventListenerName = map_of ls ''triggers.tekton.dev/eventlistener'' in
                       if \<not> truthy_str eventListenerName then []
                       else
                         let containerSlug =
                               element (split_on CHR ''-'' (or_str eventListenerName [])) 2 in
                         (if truthy_str containerSlug
                          then [TelemetryPost (or_str containerSlug [])
                                  (replace_first ''TaskRun'' [] r)]
                          else [])
                         @ (if r \<in> set terminal_reasons
                            then map CommitStatus (reportBackupCommitStatus (Some taskRunObj) r)
                            else []))))
          else [])"

definition on_event :: "int \<Rightarrow> build_event \<Rightarrow> task_run option \<Rightarrow> watch_effect list" where
  "on_event now event found = (if predates now event then [] else process_event event found)"

text \<open>
  The watcher as a state machine. \<open>watchRequest\<close> says whether the module variable holds
  a request; \<open>since\<close> is the \<open>now\<close> of the latest subscription (the threshold its
  callback filters by); \<open>timers\<close> are the times at which the pending
  \<^verbatim>\<open>setTimeout(startWatching, delay)\<close> calls fall due; \<open>performed\<close> collects the
  effects.
  Each input carries the wall-clock time at which it happens. \<open>throws\<close> says whether
  \<^verbatim>\<open>watch.watch\<close> throws when the subscription is set up.
\<close>

record watcher =
  watchRequest :: bool
  since :: "int option"
  timers :: "int list"
  performed :: "watch_effect list"

definition startWatching :: "int \<Rightarrow> bool \<Rightarrow> watcher \<Rightarrow> watcher" where
  "startWatching t throws w =
     (if throws then w\<lparr>timers := timers w @ [t + 1000]\<rparr>
      else w\<lparr>watchRequest := True, since := Some t\<rparr>)"

definition watchBuildEvents :: "int \<Rightarrow> bool \<Rightarrow> watcher \<Rightarrow> watcher" where
  "watchBuildEvents t throws w = (if watchRequest w then w else startWatching t throws w)"

datatype watch_input =
  Start int bool
| Deliver build_event "task_run option"
| TransportError int
| TimerFires int bool

fun watch_step :: "watcher \<Rightarrow> watch_input \<Rightarrow> watcher" where
  "watch_step w (Start t throws) = watchBuildEvents t throws w"
| "watch_step w (Deliver event found) =
     (case since w of
        None \<Rightarrow> w
      | Some now \<Rightarrow> w\<lparr>performed := performed w @ on_event now event found\<rparr>)"
| "watch_step w (TransportError t) = w\<lparr>timers := timers w @ [t + 2000]\<rparr>"
| "watch_step w (TimerFires t throws) =
     (case find (\<lambda>due. due \<le> t) (timers w) of
        None \<Rightarrow> w
      | Some due \<Rightarrow> startWatching t throws (w\<lparr>timers := remove1 due (timers w)\<rparr>))"

definition idle_watcher :: watcher where
  "idle_watcher = \<lparr> watchRequest = False, since = None, timers = [], performed = [] \<rparr>"

text \<open>
  The cluster record stored for an organization, the invariant of the specification's
  data model (\<open>status == error\<close> implies a non-empty \<open>provisionError\<close>), and the
  requests whose provider failure, if any, carries a non-empty message.
\<close>

definition cluster_of :: "store \<Rightarrow> string \<Rightarrow> doks_record option" where
  "cluster_of db orgId = (case db orgId of None \<Rightarrow> None | Some org \<Rightarrow> doks org)"

definition error_has_message :: "doks_record option \<Rightarrow> bool" where
  "error_has_message c =
     (case c of
        None \<Rightarrow> True
      | Some d \<Rightarrow>
          (if status d = Some ''error''
           then (case provisionError d of None \<Rightarrow> False | Some m \<Rightarrow> m \<noteq> [])
           else True))"

fun failure_has_message :: "request \<Rightarrow> bool" where
  "failure_has_message (Provision body now (Inl msg)) = (msg \<noteq> [])"
| "failure_has_message r = True"

text \<open>
  A parameter of a TaskRun by name, as \<open>paramMap\<close> holds it; a TaskRun without
  \<^verbatim>\<open>spec.params\<close> declares none.
\<close>

definition declared_param :: "task_run \<Rightarrow> string \<Rightarrow> string option" where
  "declared_param t k = (case params t of None \<Rightarrow> None | Some ps \<Rightarrow> paramMap_of ps k)"

section \<open>Example data\<close>

definition example_pool :: do_pool where
  "example_pool = \<lparr> dp_id = ''p-1'', dp_name = ''hanzo-acme-pool'', dp_size = ''s-2vcpu-4gb'',
                     dp_count = 2, dp_auto_scale = True \<rparr>"

definition example_cluster :: do_cluster where
  "example_cluster =
     \<lparr> dc_id = ''c-1'', dc_name = ''hanzo-acme'', dc_region_slug = ''sfo3'',
       dc_state = ''running'', dc_endpoint = ''https://new.k8s.example'', dc_ha = False,
       dc_node_pools = [example_pool] \<rparr>"

definition example_body :: provision_body where
  "example_body = \<lparr> p_orgId = Some ''org1'', p_region = None, p_nodeSize = None,
                     p_nodeCount = None, p_ha = None \<rparr>"

definition pending_record :: doks_record where
  "pending_record = empty_doks\<lparr>status := Some ''provisioning'', region := Some ''sfo3'',
                                ha := Some False, createdAt := Some 1000\<rparr>"

definition running_record :: doks_record where
  "running_record =
     \<lparr> clusterId = Some ''c-1'', clusterName = Some ''hanzo-acme'', status = Some ''running'',
       region = Some ''sfo3'', ha = Some False, endpoint = Some ''https://old.k8s.example'',
       nodePools = Some [], createdAt = Some 1000, provisionError = None \<rparr>"

definition example_store :: "doks_record option \<Rightarrow> store" where
  "example_store c =
     (\<lambda>_. None)(''org1'' := Some \<lparr> org_id = ''org1'', org_name = ''Acme'', doks = c \<rparr>)"

definition example_size :: do_size where
  "example_size = \<lparr> sz_slug = ''s-2vcpu-4gb'', sz_price_monthly = 24, sz_price_hourly = 0,
       sz_vcpus = 2, sz_memory = 4096, sz_disk = 80, sz_description = ''Basic'' \<rparr>"

definition empty_cache :: price_cache where
  "empty_cache = (\<lambda>_. None)"

definition warm_cache :: price_cache where
  "warm_cache = empty_cache(''s-2vcpu-4gb'' := Some \<lparr> data = pricing_of example_size, ts = 5001 \<rparr>)"

definition example_world :: "nat \<Rightarrow> world" where
  "example_world i = \<lparr> clock = 5000, listed_sizes = Inr [example_size], clock_later = 5001 \<rparr>"

definition github_run :: task_run where
  "github_run =
     \<lparr> labels = Some [(''triggers.tekton.dev/eventlistener'', ''github-listener-lkv0ier4'')],
       params = Some [(''githubpat'', ''ghp_token''), (''gitlabpat'', ''''),
                      (''gitrepourl'', ''https://github.com/acme/app.git''),
                      (''gitrevision'', ''abc123'')] \<rparr>"

definition gitlab_run :: task_run where
  "gitlab_run =
     \<lparr> labels = Some [(''triggers.tekton.dev/eventlistener'', ''gitlab-listener-x1'')],
       params = Some [(''githubpat'', ''''), (''gitlabpat'', ''glpat_token''),
                      (''gitlabprojectid'', ''acme/app''), (''gitrevision'', ''def456'')] \<rparr>"

definition unknown_revision_run :: task_run where
  "unknown_revision_run =
     \<lparr> labels = Some [(''triggers.tekton.dev/eventlistener'', ''github-listener-lkv0ier4'')],
       params = Some [(''githubpat'', ''ghp_token''),
                      (''gitrepourl'', ''https://github.com/acme/app''),
                      (''gitrevision'', ''N/A'')] \<rparr>"

definition bitbucket_run :: task_run where
  "bitbucket_run =
     \<lparr> labels = Some [(''triggers.tekton.dev/eventlistener'', ''bitbucket-listener-q7'')],
       params = Some [(''bitbucketpat'', ''bb_token''), (''gitreponame'', ''acme/app''),
                      (''gitrevision'', ''0a1b2c'')] \<rparr>"

definition untimed_event :: build_event where
  "untimed_event = \<lparr> lastTimestamp = None, firstTimestamp = None,
                       reason = Some ''Succeeded'', involvedObjectName = ''run-1'' \<rparr>"

definition epoch_event :: build_event where
  "epoch_event = \<lparr> lastTimestamp = Some (Num 0), firstTimestamp = None,
                     reason = Some ''Started'', involvedObjectName = ''run-1'' \<rparr>"

definition old_event :: build_event where
  "old_event = \<lparr> lastTimestamp = Some (Num 4000), firstTimestamp = Some (Num 3000),
                   reason = Some ''Succeeded'', involvedObjectName = ''run-1'' \<rparr>"

definition github_effects :: "watch_effect list" where
  "github_effects =
     [GetTaskRun ''run-1'', TelemetryPost ''lkv0ier4'' ''Succeeded'',
      CommitStatus \<lparr> post_url = ''https://api.github.com/repos/acme/app/statuses/abc123'',
                     post_token = ''ghp_token'', post_state = ''success'',
                     post_description = ''Pipeline completed successfully'' \<rparr>]"

section \<open>Node-pool scale bounds\<close>

lemma safe_product: "\<bar>n\<bar> \<le> 2 ^ 53 \<Longrightarrow> double_of_int n = Finite n"
  by (simp add: double_of_int_def)

lemma rounded_product: "double_of_int 9007199254740993 = Finite 9007199254740992"
  by code_simp

text \<open>
  Claim C1, as the specification states it, fails in three ways. A pool created with
  count 5 and then resized with a new size only has 5 as its most recent explicit count,
  so the ceiling should stay 15, but the resize sends 9. A resize to the explicit count 0
  sends 9 as well, where the formula gives 6. And a count whose triple is not a double is
  rounded: for 3002399751580331 the formula gives 9007199254740993 and the request
  carries 9007199254740992.
\<close>

theorem C1_resize_counterexample:
  "spec_recent_count [AddPool (Some ''workers'') None (Some 5),
                      UpdatePool None (Some ''s-4vcpu-8gb'')] = Some 5
   \<and> body_max_nodes (sent_body None (UpdatePool None (Some ''s-4vcpu-8gb''))) = Finite 9
   \<and> body_max_nodes (sent_body None (UpdatePool None (Some ''s-4vcpu-8gb'')))
       \<noteq> Finite (spec_max_nodes 5)
   \<and> supplied_count (UpdatePool (Some 0) None) = Some 0
   \<and> body_max_nodes (sent_body None (UpdatePool (Some 0) None)) = Finite 9
   \<and> body_max_nodes (sent_body None (UpdatePool (Some 0) None)) \<noteq> Finite (spec_max_nodes 0)
   \<and> body_max_nodes (sent_body None (AddPool (Some ''workers'') None (Some 3002399751580331)))
       = Finite 9007199254740992
   \<and> body_max_nodes (sent_body None (AddPool (Some ''workers'') None (Some 3002399751580331)))
       \<noteq> Finite (spec_max_nodes 3002399751580331)"
  by (simp add: updateNodePool_body_def addNodePool_body_def or_num_def spec_max_nodes_def
      safe_product rounded_product)

text \<open>
  Claim C1, amended: every node-pool creation and every node-pool resize sends
  \<open>min_nodes = 1\<close>. With \<open>count\<close> the count the call itself supplies, an integer whose
  triple is at most \<open>2 ^ 53\<close> in absolute value, a creation sends
  \<open>max_nodes = max (count * 3) 6\<close> for every such count and a resize sends it for every
  such count but zero, by the same formula. A creation that supplies no count sends the
  default count 2 and \<open>max_nodes = 6\<close>, the formula's value for 2. A resize that supplies
  no count, or the count zero, sends \<open>max_nodes = 9\<close>, whatever count the pool was given
  before.
\<close>

theorem C1_scale_bounds:
  "body_min_nodes (sent_body env_size c) = 1
   \<and> (supplied_count c = Some k \<and> \<bar>k * 3\<bar> \<le> 2 ^ 53 \<and> (is_resize c \<longrightarrow> k \<noteq> 0) \<longrightarrow>
        body_max_nodes (sent_body env_size c) = Finite (spec_max_nodes k))
   \<and> (supplied_count c = None \<and> \<not> is_resize c \<longrightarrow>
        body_count (sent_body env_size c) = Some 2
        \<and> body_max_nodes (sent_body env_size c) = Finite (spec_max_nodes 2)
        \<and> spec_max_nodes 2 = 6)
   \<and> ((supplied_count c = None \<or> supplied_count c = Some 0) \<and> is_resize c \<longrightarrow>
        body_max_nodes (sent_body env_size c) = Finite 9)"
proof (cases c)
  case (ClusterPool cluster_slug nodeSize nodeCount)
  then show ?thesis
    by (cases nodeCount)
       (auto simp: createDOKSCluster_pool_def DEFAULT_NODE_COUNT_def spec_max_nodes_def
          safe_product)
next
  case (AddPool name sz count)
  then show ?thesis
    by (cases count)
       (auto simp: addNodePool_body_def DEFAULT_NODE_COUNT_def or_num_def spec_max_nodes_def
          safe_product)
next
  case (UpdatePool count sz)
  then show ?thesis
    by (cases count)
       (auto simp: updateNodePool_body_def or_num_def spec_max_nodes_def safe_product)
qed

theorem C1_scale_bounds_witness:
  "body_min_nodes (sent_body None (AddPool (Some ''workers'') None (Some 5))) = 1
   \<and> body_max_nodes (sent_body None (AddPool (Some ''workers'') None (Some 5))) = Finite 15
   \<and> body_max_nodes (sent_body None (AddPool (Some ''workers'') None (Some 0))) = Finite 6
   \<and> body_max_nodes (sent_body None (ClusterPool ''hanzo-acme'' None (Some 4))) = Finite 12
   \<and> body_max_nodes (sent_body None (ClusterPool ''hanzo-acme'' None None)) = Finite 6
   \<and> body_count (sent_body None (AddPool (Some ''workers'') None None)) = Some 2
   \<and> body_max_nodes (sent_body None (AddPool (Some ''workers'') None None)) = Finite 6
   \<and> body_min_nodes (sent_body None (UpdatePool (Some 1) None)) = 1
   \<and> body_max_nodes (sent_body None (UpdatePool (Some 1) None)) = Finite 6
   \<and> body_max_nodes (sent_body None (UpdatePool (Some 7) None)) = Finite 21
   \<and> body_max_nodes (sent_body None (UpdatePool None (Some ''s-4vcpu-8gb''))) = Finite 9
   \<and> body_max_nodes (sent_body None (UpdatePool (Some 0) None)) = Finite 9"
  using C1_scale_bounds [of None "AddPool (Some ''workers'') None (Some 5)" 5]
    C1_scale_bounds [of None "AddPool (Some ''workers'') None (Some 0)" 0]
    C1_scale_bounds [of None "ClusterPool ''hanzo-acme'' None (Some 4)" 4]
    C1_scale_bounds [of None "ClusterPool ''hanzo-acme'' None None" 0]
    C1_scale_bounds [of None "AddPool (Some ''workers'') None None" 0]
    C1_scale_bounds [of None "UpdatePool (Some 1) None" 1]
    C1_scale_bounds [of None "UpdatePool (Some 7) None" 7]
    C1_scale_bounds [of None "UpdatePool None (Some ''s-4vcpu-8gb'')" 0]
    C1_scale_bounds [of None "UpdatePool (Some 0) None" 0]
  by (simp add: spec_max_nodes_def)

section \<open>The store under the routes\<close>

lemma cluster_of_update:
  "cluster_of (updateOneById db orgId u) oid =
     (if oid = orgId \<and> db orgId \<noteq> None then apply_update (cluster_of db orgId) u
      else cluster_of db oid)"
  by (auto simp: cluster_of_def updateOneById_def split: option.splits)

lemma update_defined: "(updateOneById db orgId u oid = None) = (db oid = None)"
  by (auto simp: updateOneById_def split: option.splits)

lemma keep_mark: "error_has_message (apply_update c (mark_provisioning body now))"
  by (simp add: error_has_message_def mark_provisioning_def)

lemma keep_info: "error_has_message (apply_update c (cluster_info cluster))"
  by (simp add: error_has_message_def cluster_info_def)

lemma keep_failed: "msg \<noteq> [] \<Longrightarrow> error_has_message (apply_update c (provision_failed msg))"
  by (simp add: error_has_message_def provision_failed_def)

lemma keep_refresh:
  "error_has_message (apply_update c (status_refresh (Some ''running'') cluster))"
  by (simp add: error_has_message_def status_refresh_def)

lemma keep_pools:
  "error_has_message c \<Longrightarrow> error_has_message (apply_update c (SetFields [SetNodePools ps]))"
  by (cases c) (auto simp: error_has_message_def empty_doks_def split: option.splits if_splits)

lemma keep_ha:
  "error_has_message c \<Longrightarrow> error_has_message (apply_update c (SetFields [SetHa b]))"
  by (cases c) (auto simp: error_has_message_def empty_doks_def split: option.splits if_splits)

lemma keep_deleting: "error_has_message (apply_update c mark_deleting)"
  by (simp add: error_has_message_def mark_deleting_def)

lemma keep_clear: "error_has_message (apply_update c ClearDoks)"
  by (simp add: error_has_message_def)

lemmas keeps =
  keep_mark keep_info keep_failed keep_refresh keep_pools keep_ha keep_deleting keep_clear

lemma provision_keeps:
  assumes "error_has_message (cluster_of db oid)"
    and "failure_has_message (Provision body now created)"
  shows "error_has_message (cluster_of (stored (provision db body now created)) oid)"
  using assms
  by (cases created)
     (auto simp: provision_def answer_def Let_def cluster_of_update keeps
        simp del: apply_update.simps split: option.splits)

lemma getStatus_keeps:
  assumes "error_has_message (cluster_of db oid)"
  shows "error_has_message (cluster_of (stored (getStatus db orgId got)) oid)"
  using assms
  by (cases got)
     (auto simp: getStatus_def answer_def Let_def cluster_of_update keeps
        simp del: apply_update.simps split: option.splits if_splits)

lemma pools_keep:
  assumes "error_has_message (cluster_of db oid)"
  shows "error_has_message
           (cluster_of (stored (addPoolRoute env_size db orgId name sz count added)) oid)"
    and "error_has_message
           (cluster_of (stored (updatePoolRoute db orgId pid count sz updated)) oid)"
    and "error_has_message (cluster_of (stored (deletePoolRoute db orgId pid deleted)) oid)"
    and "error_has_message (cluster_of (stored (upgradeHaRoute db orgId upgraded)) oid)"
    and "error_has_message (cluster_of (stored (deleteCluster db orgId confirm deleted)) oid)"
  using assms
  by (auto simp: addPoolRoute_def updatePoolRoute_def deletePoolRoute_def upgradeHaRoute_def
      deleteCluster_def answer_def Let_def cluster_of_update update_defined keeps
      simp del: apply_update.simps split: sum.splits)

lemma handle_keeps:
  assumes "error_has_message (cluster_of db oid)" and "failure_has_message r"
  shows "error_has_message (cluster_of (stored (handle env_size db r)) oid)"
  using assms by (cases r) (simp_all add: provision_keeps getStatus_keeps pools_keep)

lemma run_keeps:
  assumes "error_has_message (cluster_of db oid)" and "\<forall>r \<in> set rs. failure_has_message r"
  shows "error_has_message (cluster_of (run env_size db rs) oid)"
  using assms by (induction rs arbitrary: db) (simp_all add: handle_keeps)

section \<open>Provisioning conflict\<close>

text \<open>
  Claim C2, as the specification states it, fails for a record that is not in error but
  has no \<open>clusterId\<close> yet. That is the record the route itself writes before it calls
  the provider (status \<open>provisioning\<close>, region, ha, createdAt). A provision request
  that finds it is accepted: the provider's create-cluster operation is called again and
  the record is overwritten.
\<close>

theorem C2_pending_counterexample:
  "status pending_record = Some ''provisioning''
   \<and> response (provision (example_store (Some pending_record)) example_body 2000
                 (Inr example_cluster)) = Status 201
   \<and> effects (provision (example_store (Some pending_record)) example_body 2000
                 (Inr example_cluster)) ! 1 = CreateDOKSCluster ''org1''
   \<and> cluster_of (stored (provision (example_store (Some pending_record)) example_body 2000
                 (Inr example_cluster))) ''org1'' \<noteq> Some pending_record"
  by (simp add: provision_def answer_def getOneById_def updateOneById_def doks_clusterId_def
      truthy_str_def or_str_def or_bool_def mark_provisioning_def cluster_info_def
      cached_pool_def cluster_of_def example_store_def pending_record_def example_body_def
      example_cluster_def example_pool_def empty_doks_def Let_def)

text \<open>
  Claim C2, amended: if a cluster record with a \<open>clusterId\<close> and a status other than
  \<open>error\<close> already exists for an organization, a provision request for that
  organization is answered 409 (conflict), no provider operation is called and the store
  is left as it was.
\<close>

theorem C2_conflict:
  assumes "p_orgId body = Some orgId" and "orgId \<noteq> []"
    and "cluster_of db orgId = Some d"
    and "truthy_str (clusterId d)" and "status d \<noteq> Some ''error''"
  shows "response (provision db body now created) = Status 409
         \<and> effects (provision db body now created) = []
         \<and> stored (provision db body now created) = db"
  using assms
  by (auto simp: provision_def answer_def getOneById_def doks_clusterId_def doks_status_def
      truthy_str_def or_str_def cluster_of_def Let_def split: option.splits)

theorem C2_conflict_witness:
  "response (provision (example_store (Some running_record)) example_body 2000
              (Inr example_cluster)) = Status 409
   \<and> effects (provision (example_store (Some running_record)) example_body 2000
              (Inr example_cluster)) = []
   \<and> stored (provision (example_store (Some running_record)) example_body 2000
              (Inr example_cluster)) = example_store (Some running_record)"
  using C2_conflict [of example_body "''org1''" "example_store (Some running_record)"
      running_record 2000 "Inr example_cluster"]
  by (simp add: cluster_of_def truthy_str_def example_store_def running_record_def
      example_body_def)

section \<open>Cluster deletion\<close>

text \<open>
  Claim C3: \<open>deleteCluster\<close> on an organization whose record has a \<open>clusterId\<close>.
  Without \<open>confirm = "true"\<close> the request is answered 400, nothing is called and the
  store is unchanged. With it, the first effect is the write of status \<open>deleting\<close>, the
  second is the provider's delete; the record is cleared (after the usage event) only when
  the provider's delete returned, and when it threw the record stays, in status
  \<open>deleting\<close>.
\<close>

theorem C3_delete:
  assumes "db orgId = Some org" and "doks org = Some d"
    and "clusterId d = Some cid" and "cid \<noteq> []"
  shows "(confirm \<noteq> Some ''true'' \<longrightarrow>
            response (deleteCluster db orgId confirm deleted) = Status 400
            \<and> effects (deleteCluster db orgId confirm deleted) = []
            \<and> stored (deleteCluster db orgId confirm deleted) = db)
         \<and> (confirm = Some ''true'' \<longrightarrow>
            take 2 (effects (deleteCluster db orgId confirm deleted))
              = [StoreWrite orgId mark_deleting, DeleteDOKSCluster cid]
            \<and> (case deleted of
                 Inr u \<Rightarrow>
                   effects (deleteCluster db orgId confirm deleted)
                     = [StoreWrite orgId mark_deleting, DeleteDOKSCluster cid,
                        RecordUsageEvent orgId ''cluster_delete'', StoreWrite orgId ClearDoks]
                   \<and> cluster_of (stored (deleteCluster db orgId confirm deleted)) orgId = None
               | Inl msg \<Rightarrow>
                   effects (deleteCluster db orgId confirm deleted)
                     = [StoreWrite orgId mark_deleting, DeleteDOKSCluster cid]
                   \<and> cluster_of (stored (deleteCluster db orgId confirm deleted)) orgId
                     = Some (d\<lparr>status := Some ''deleting''\<rparr>)))"
  using assms
  by (auto simp: deleteCluster_def answer_def getOneById_def doks_clusterId_def truthy_str_def
      or_str_def cluster_of_def updateOneById_def mark_deleting_def Let_def split: sum.splits)

theorem C3_delete_witness:
  "response (deleteCluster (example_store (Some running_record)) ''org1'' None (Inr ()))
     = Status 400
   \<and> effects (deleteCluster (example_store (Some running_record)) ''org1'' None (Inr ())) = []
   \<and> stored (deleteCluster (example_store (Some running_record)) ''org1'' None (Inr ()))
     = example_store (Some running_record)
   \<and> effects (deleteCluster (example_store (Some running_record)) ''org1'' (Some ''true'')
               (Inr ()))
     = [StoreWrite ''org1'' mark_deleting, DeleteDOKSCluster ''c-1'',
        RecordUsageEvent ''org1'' ''cluster_delete'', StoreWrite ''org1'' ClearDoks]
   \<and> cluster_of (stored (deleteCluster (example_store (Some running_record)) ''org1''
                 (Some ''true'') (Inr ()))) ''org1'' = None
   \<and> cluster_of (stored (deleteCluster (example_store (Some running_record)) ''org1''
                 (Some ''true'') (Inl ''gone''))) ''org1''
     = Some (running_record\<lparr>status := Some ''deleting''\<rparr>)"
  using C3_delete [of "example_store (Some running_record)" "''org1''"
        "\<lparr> org_id = ''org1'', org_name = ''Acme'', doks = Some running_record \<rparr>"
        running_record "''c-1''" None "Inr ()"]
    C3_delete [of "example_store (Some running_record)" "''org1''"
        "\<lparr> org_id = ''org1'', org_name = ''Acme'', doks = Some running_record \<rparr>"
        running_record "''c-1''" "Some ''true''" "Inr ()"]
    C3_delete [of "example_store (Some running_record)" "''org1''"
        "\<lparr> org_id = ''org1'', org_name = ''Acme'', doks = Some running_record \<rparr>"
        running_record "''c-1''" "Some ''true''" "Inl ''gone''"]
  by (simp add: example_store_def running_record_def)

section \<open>Provider failure during provisioning\<close>

text \<open>
  Claim C4, as the specification states it, fails in its last part: the route stores
  \<^verbatim>\<open>error.message\<close> as it is, and a JavaScript error may carry the empty message. The
  record is then in status \<open>error\<close> with an empty \<open>provisionError\<close>.
\<close>

theorem C4_empty_message_counterexample:
  "cluster_of (stored (provision (example_store None) example_body 2000 (Inl []))) ''org1''
     = Some (empty_doks\<lparr>status := Some ''error'', region := Some ''sfo3'', ha := Some False,
                         createdAt := Some 2000, provisionError := Some []\<rparr>)
   \<and> \<not> error_has_message
         (cluster_of (stored (provision (example_store None) example_body 2000 (Inl []))) ''org1'')"
  by (simp add: provision_def answer_def getOneById_def updateOneById_def doks_clusterId_def
      truthy_str_def or_str_def or_bool_def mark_provisioning_def provision_failed_def
      cluster_of_def error_has_message_def example_store_def example_body_def empty_doks_def
      Let_def)

text \<open>
  Claim C4, amended: if the provider's create-cluster call fails during provisioning, the
  organization's record is left in status \<open>error\<close> (not none, not absent) with
  \<open>provisionError\<close> set to the failure message; consequently, over any sequence of
  requests to the router in which every failed create-cluster call carries a non-empty
  message, every cluster record in status \<open>error\<close> carries a non-empty
  \<open>provisionError\<close>.
\<close>

theorem C4_provision_error:
  "(p_orgId body = Some orgId \<and> orgId \<noteq> [] \<and> db orgId \<noteq> None
      \<and> \<not> (truthy_str (doks_clusterId (db orgId)) \<and> doks_status (db orgId) \<noteq> Some ''error'')
    \<longrightarrow> (\<exists>d. cluster_of (stored (provision db body now (Inl msg))) orgId = Some d
             \<and> status d = Some ''error'' \<and> provisionError d = Some msg))
   \<and> (error_has_message (cluster_of db oid) \<and> (\<forall>r \<in> set rs. failure_has_message r)
    \<longrightarrow> error_has_message (cluster_of (run env_size db rs) oid))"
proof (intro conjI impI)
  assume a: "p_orgId body = Some orgId \<and> orgId \<noteq> [] \<and> db orgId \<noteq> None
      \<and> \<not> (truthy_str (doks_clusterId (db orgId)) \<and> doks_status (db orgId) \<noteq> Some ''error'')"
  then obtain org where org: "db orgId = Some org" by auto
  have "stored (provision db body now (Inl msg))
          = updateOneById (updateOneById db orgId (mark_provisioning body now)) orgId
              (provision_failed msg)"
    using a org
    by (auto simp: provision_def answer_def getOneById_def truthy_str_def or_str_def Let_def)
  then show "\<exists>d. cluster_of (stored (provision db body now (Inl msg))) orgId = Some d
             \<and> status d = Some ''error'' \<and> provisionError d = Some msg"
    using org
    by (simp add: cluster_of_update update_defined provision_failed_def)
next
  assume "error_has_message (cluster_of db oid) \<and> (\<forall>r \<in> set rs. failure_has_message r)"
  then show "error_has_message (cluster_of (run env_size db rs) oid)"
    by (simp add: run_keeps)
qed

theorem C4_provision_error_witness:
  "cluster_of (stored (provision (example_store None) example_body 2000
                        (Inl ''Request failed with status code 422''))) ''org1''
     = Some (empty_doks\<lparr>status := Some ''error'', region := Some ''sfo3'', ha := Some False,
                         createdAt := Some 2000,
                         provisionError := Some ''Request failed with status code 422''\<rparr>)
   \<and> error_has_message (cluster_of (run None (example_store None)
        [Provision example_body 2000 (Inr example_cluster),
         GetStatus ''org1'' (Inr example_cluster),
         DeleteClusterReq ''org1'' (Some ''true'') (Inr ()),
         Provision example_body 3000 (Inl ''Network Error'')]) ''org1'')
   \<and> cluster_of (run None (example_store None)
        [Provision example_body 2000 (Inr example_cluster),
         GetStatus ''org1'' (Inr example_cluster),
         DeleteClusterReq ''org1'' (Some ''true'') (Inr ()),
         Provision example_body 3000 (Inl ''Network Error'')]) ''org1''
     = Some (empty_doks\<lparr>status := Some ''error'', region := Some ''sfo3'', ha := Some False,
                         createdAt := Some 3000, provisionError := Some ''Network Error''\<rparr>)"
  using C4_provision_error [of example_body "''org1''" "example_store None" 2000
      "''Request failed with status code 422''" "''org1''"
      "[Provision example_body 2000 (Inr example_cluster),
        GetStatus ''org1'' (Inr example_cluster),
        DeleteClusterReq ''org1'' (Some ''true'') (Inr ()),
        Provision example_body 3000 (Inl ''Network Error'')]" None]
  by (simp add: provision_def getStatus_def deleteCluster_def answer_def getOneById_def
      updateOneById_def doks_clusterId_def doks_status_def truthy_str_def or_str_def
      or_bool_def mark_provisioning_def provision_failed_def cluster_info_def
      status_refresh_def mark_deleting_def cached_pool_def cluster_of_def
      error_has_message_def example_store_def example_body_def example_cluster_def
      example_pool_def empty_doks_def Let_def)

section \<open>Status poll\<close>

text \<open>
  Claim C5, as the specification states it, fails when the cached status is already
  \<open>running\<close>: the route writes only when the status changes, so an endpoint and node
  pools that differ from the provider's stay as they were cached.
\<close>

theorem C5_no_refresh_counterexample:
  "dc_state example_cluster = ''running''
   \<and> status running_record = Some ''running''
   \<and> endpoint running_record \<noteq> Some (dc_endpoint example_cluster)
   \<and> nodePools running_record \<noteq> Some (map cached_pool (dc_node_pools example_cluster))
   \<and> response (getStatus (example_store (Some running_record)) ''org1'' (Inr example_cluster))
       = Status 200
   \<and> cluster_of (stored (getStatus (example_store (Some running_record)) ''org1''
         (Inr example_cluster))) ''org1'' = Some running_record"
  by (simp add: getStatus_def answer_def getOneById_def doks_clusterId_def doks_status_def
      truthy_str_def or_str_def cached_pool_def cluster_of_def example_store_def
      running_record_def example_cluster_def example_pool_def Let_def)

text \<open>
  Claim C5, amended: on a status poll for a cluster whose provider-reported state is
  running, the cached status is (or remains) \<open>running\<close>; the cached endpoint and
  nodePools are set from the provider response when the cached status was not yet
  \<open>running\<close>, and the record is left as it is when it was.
\<close>

theorem C5_status_poll:
  assumes "cluster_of db orgId = Some d" and "truthy_str (clusterId d)"
    and "dc_state cluster = ''running''"
  shows "\<exists>d'. cluster_of (stored (getStatus db orgId (Inr cluster))) orgId = Some d'
           \<and> status d' = Some ''running''
           \<and> (if status d = Some ''running'' then d' = d
               else endpoint d' = Some (dc_endpoint cluster)
                    \<and> nodePools d' = Some (map cached_pool (dc_node_pools cluster)))"
  using assms
  by (auto simp: getStatus_def answer_def getOneById_def doks_clusterId_def doks_status_def
      cluster_of_def updateOneById_def status_refresh_def Let_def split: option.splits)

theorem C5_status_poll_witness:
  "cluster_of (stored (getStatus
       (example_store (Some (running_record\<lparr>status := Some ''provisioning''\<rparr>))) ''org1''
       (Inr example_cluster))) ''org1''
     = Some (running_record\<lparr>endpoint := Some ''https://new.k8s.example'',
                             nodePools := Some [cached_pool example_pool]\<rparr>)"
  using C5_status_poll [of "example_store (Some (running_record\<lparr>status := Some ''provisioning''\<rparr>))"
      "''org1''" "running_record\<lparr>status := Some ''provisioning''\<rparr>" example_cluster]
  by (simp add: getStatus_def answer_def getOneById_def updateOneById_def doks_clusterId_def
      doks_status_def truthy_str_def or_str_def status_refresh_def cached_pool_def
      cluster_of_def example_store_def running_record_def example_cluster_def
      example_pool_def Let_def)

section \<open>The pricing cache\<close>

lemma cached_hit:
  assumes "priceCache sizeSlug = Some cached" and "now - ts cached < CACHE_TTL"
  shows "getCachedPricing priceCache sizeSlug now listed later
         = \<lparr> returned = Inr (Some (data cached)), cache_after = priceCache, upstream = [] \<rparr>"
  using assms by (simp add: getCachedPricing_def)

lemma cached_miss:
  assumes "\<not> (\<exists>cached. priceCache sizeSlug = Some cached \<and> now - ts cached < CACHE_TTL)"
  shows "getCachedPricing priceCache sizeSlug now listed later
         = (case getDropletPricing sizeSlug listed of
             Inl msg \<Rightarrow>
               \<lparr> returned = Inl msg, cache_after = priceCache, upstream = [sizeSlug] \<rparr>
           | Inr None \<Rightarrow>
               \<lparr> returned = Inr None, cache_after = priceCache, upstream = [sizeSlug] \<rparr>
           | Inr (Some d) \<Rightarrow>
               \<lparr> returned = Inr (Some d),
                 cache_after = priceCache(sizeSlug := Some \<lparr> data = d, ts = later \<rparr>),
                 upstream = [sizeSlug] \<rparr>)"
proof (cases "priceCache sizeSlug")
  case None
  then show ?thesis by (simp add: getCachedPricing_def)
next
  case (Some c)
  with assms have "\<not> now - ts c < CACHE_TTL" by simp
  with Some show ?thesis by (simp add: getCachedPricing_def)
qed

text \<open>
  Claim C6: \<open>getCachedPricing\<close>. The time to live is one hour in milliseconds. A cache
  entry younger than that is returned with no upstream call and the cache unchanged.
  Otherwise \<^verbatim>\<open>getDropletPricing\<close> is called exactly once: a matching slug is stored
  with the time of the store and returned; with no matching slug the result is not-found
  (\<open>Inr None\<close>) and the cache is exactly what it was, so nothing is stored; an upstream
  error is passed on, again with the cache unchanged.
\<close>

theorem C6_pricing_cache:
  "CACHE_TTL = 3600000
   \<and> (priceCache sizeSlug = Some cached \<and> now - ts cached < CACHE_TTL \<longrightarrow>
        returned (getCachedPricing priceCache sizeSlug now listed later) = Inr (Some (data cached))
        \<and> upstream (getCachedPricing priceCache sizeSlug now listed later) = []
        \<and> cache_after (getCachedPricing priceCache sizeSlug now listed later) = priceCache)
   \<and> (\<not> (\<exists>cached. priceCache sizeSlug = Some cached \<and> now - ts cached < CACHE_TTL) \<longrightarrow>
        upstream (getCachedPricing priceCache sizeSlug now listed later) = [sizeSlug]
        \<and> (case listed of
              Inl msg \<Rightarrow>
                returned (getCachedPricing priceCache sizeSlug now listed later) = Inl msg
                \<and> cache_after (getCachedPricing priceCache sizeSlug now listed later) = priceCache
            | Inr sizes \<Rightarrow>
                (case find (\<lambda>s. sz_slug s = sizeSlug) sizes of
                   Some s \<Rightarrow>
                     returned (getCachedPricing priceCache sizeSlug now listed later)
                       = Inr (Some (pricing_of s))
                     \<and> cache_after (getCachedPricing priceCache sizeSlug now listed later)
                       = priceCache(sizeSlug := Some \<lparr> data = pricing_of s, ts = later \<rparr>)
                 | None \<Rightarrow>
                     returned (getCachedPricing priceCache sizeSlug now listed later) = Inr None
                     \<and> cache_after (getCachedPricing priceCache sizeSlug now listed later)
                       = priceCache)))"
proof (intro conjI impI)
  show "CACHE_TTL = 3600000" by (simp add: CACHE_TTL_def)
next
  assume "priceCache sizeSlug = Some cached \<and> now - ts cached < CACHE_TTL"
  then have hit: "getCachedPricing priceCache sizeSlug now listed later
         = \<lparr> returned = Inr (Some (data cached)), cache_after = priceCache, upstream = [] \<rparr>"
    by (simp add: cached_hit)
  show "returned (getCachedPricing priceCache sizeSlug now listed later) = Inr (Some (data cached))"
    by (simp add: hit)
  show "upstream (getCachedPricing priceCache sizeSlug now listed later) = []"
    by (simp add: hit)
  show "cache_after (getCachedPricing priceCache sizeSlug now listed later) = priceCache"
    by (simp add: hit)
next
  assume miss: "\<not> (\<exists>cached. priceCache sizeSlug = Some cached \<and> now - ts cached < CACHE_TTL)"
  note m = cached_miss [of priceCache sizeSlug now listed later, OF miss]
  show "upstream (getCachedPricing priceCache sizeSlug now listed later) = [sizeSlug]"
    by (simp add: m split: sum.splits option.splits)
  show "case listed of
          Inl msg \<Rightarrow>
            returned (getCachedPricing priceCache sizeSlug now listed later) = Inl msg
            \<and> cache_after (getCachedPricing priceCache sizeSlug now listed later) = priceCache
        | Inr sizes \<Rightarrow>
            (case find (\<lambda>s. sz_slug s = sizeSlug) sizes of
               Some s \<Rightarrow>
                 returned (getCachedPricing priceCache sizeSlug now listed later)
                   = Inr (Some (pricing_of s))
                 \<and> cache_after (getCachedPricing priceCache sizeSlug now listed later)
                   = priceCache(sizeSlug := Some \<lparr> data = pricing_of s, ts = later \<rparr>)
             | None \<Rightarrow>
                 returned (getCachedPricing priceCache sizeSlug now listed later) = Inr None
                 \<and> cache_after (getCachedPricing priceCache sizeSlug now listed later)
                   = priceCache)"
    using miss by (simp add: cached_miss getDropletPricing_def split: sum.splits option.splits)
qed

theorem C6_pricing_cache_witness:
  "upstream (getCachedPricing empty_cache ''s-2vcpu-4gb'' 5000 (Inr [example_size]) 5001)
     = [''s-2vcpu-4gb'']
   \<and> returned (getCachedPricing empty_cache ''s-2vcpu-4gb'' 5000 (Inr [example_size]) 5001)
     = Inr (Some (pricing_of example_size))
   \<and> cache_after (getCachedPricing empty_cache ''s-2vcpu-4gb'' 5000 (Inr [example_size]) 5001)
     = warm_cache
   \<and> upstream (getCachedPricing warm_cache ''s-2vcpu-4gb'' 3605000 (Inr []) 3605000) = []
   \<and> returned (getCachedPricing warm_cache ''s-2vcpu-4gb'' 3605000 (Inr []) 3605000)
     = Inr (Some (pricing_of example_size))
   \<and> upstream (getCachedPricing warm_cache ''s-2vcpu-4gb'' 3605001 (Inr []) 3605002)
     = [''s-2vcpu-4gb'']
   \<and> returned (getCachedPricing warm_cache ''s-2vcpu-4gb'' 3605001 (Inr []) 3605002) = Inr None
   \<and> cache_after (getCachedPricing warm_cache ''s-2vcpu-4gb'' 3605001 (Inr []) 3605002)
     = warm_cache"
  using C6_pricing_cache [of empty_cache "''s-2vcpu-4gb''"
      "\<lparr> data = pricing_of example_size, ts = 5001 \<rparr>" 5000 "Inr [example_size]" 5001]
    C6_pricing_cache [of warm_cache "''s-2vcpu-4gb''"
      "\<lparr> data = pricing_of example_size, ts = 5001 \<rparr>" 3605000 "Inr []" 3605000]
    C6_pricing_cache [of warm_cache "''s-2vcpu-4gb''"
      "\<lparr> data = pricing_of example_size, ts = 5001 \<rparr>" 3605001 "Inr []" 3605002]
  by (simp add: empty_cache_def example_size_def warm_cache_def)

section \<open>The cost of an organization's cluster\<close>

text \<open>
  Claim C7: \<open>calculateOrgCost\<close> returns the zero breakdown (\<open>monthlyTotal = 0\<close>, no
  items) whenever the organization's record has no \<open>clusterId\<close> or is in status
  \<open>error\<close>; a breakdown with line items is only returned for a record that has a
  \<open>clusterId\<close> and is not in status \<open>error\<close>.
\<close>

theorem C7_zero_cost:
  "(\<not> truthy_str (doks_clusterId org) \<or> doks_status org = Some ''error'' \<longrightarrow>
      cost (calculateOrgCost MARKUP_PERCENT today w priceCache org) = Inr zero_cost
      \<and> monthlyTotal zero_cost = 0 \<and> items zero_cost = [])
   \<and> (cost (calculateOrgCost MARKUP_PERCENT today w priceCache org) = Inr b \<and> items b \<noteq> [] \<longrightarrow>
      truthy_str (doks_clusterId org) \<and> doks_status org \<noteq> Some ''error'')"
  by (auto simp: calculateOrgCost_def zero_cost_def)

theorem C7_zero_cost_witness:
  "cost (calculateOrgCost 10 7000 example_world empty_cache
           (example_store (Some pending_record) ''org1'')) = Inr zero_cost
   \<and> cost (calculateOrgCost 10 7000 example_world empty_cache
           (example_store (Some (running_record\<lparr>status := Some ''error'',
               nodePools := Some [cached_pool example_pool]\<rparr>)) ''org1'')) = Inr zero_cost
   \<and> monthlyTotal zero_cost = 0 \<and> items zero_cost = []
   \<and> (\<exists>b. cost (calculateOrgCost 10 7000 example_world empty_cache
           (example_store (Some (running_record\<lparr>nodePools := Some [cached_pool example_pool]\<rparr>))
              ''org1'')) = Inr b
          \<and> items b = [nodes_item (cached_pool example_pool) (pricing_of example_size)]
          \<and> monthlyTotal b = 52.8)"
  using C7_zero_cost [of "example_store (Some pending_record) ''org1''" 10 7000 example_world
      empty_cache]
    C7_zero_cost [of "example_store (Some (running_record\<lparr>status := Some ''error'',
               nodePools := Some [cached_pool example_pool]\<rparr>)) ''org1''" 10 7000 example_world
      empty_cache]
  by (simp add: example_store_def pending_record_def running_record_def empty_doks_def
      doks_clusterId_def doks_status_def truthy_str_def calculateOrgCost_def doks_nodePools_def
      doks_ha_def or_bool_def getCachedPricing_def getDropletPricing_def example_world_def
      empty_cache_def example_size_def example_pool_def cached_pool_def CACHE_TTL_def
      nodes_item_def pricing_of_def Let_def)

section \<open>Commit status notification\<close>

lemma post_states:
  "p \<in> set (postGithubCommitStatus token url sha state descr) \<Longrightarrow> post_state p = state"
  "p \<in> set (postGitlabCommitStatus token project sha state descr) \<Longrightarrow> post_state p = state"
  "p \<in> set (postBitbucketCommitStatus token repoFullName sha state descr) \<Longrightarrow> post_state p = state"
  by (auto simp: postGithubCommitStatus_def postGitlabCommitStatus_def
      postBitbucketCommitStatus_def Let_def split: if_splits)

lemma extract_provider:
  "extractGitParams (Some t) =
     (if truthy_str (declared_param t ''githubpat'') then
        Some \<lparr> provider = Github, pat = or_str (declared_param t ''githubpat'') [],
               repoUrl = or_str (declared_param t ''gitrepourl'') [],
               revision = or_str (declared_param t ''gitrevision'') [],
               repoName = or_str (declared_param t ''gitreponame'') [],
               projectId = or_str (declared_param t ''gitlabprojectid'') [] \<rparr>
      else if truthy_str (declared_param t ''gitlabpat'') then
        Some \<lparr> provider = Gitlab, pat = or_str (declared_param t ''gitlabpat'') [],
               repoUrl = or_str (declared_param t ''gitrepourl'') [],
               revision = or_str (declared_param t ''gitrevision'') [],
               repoName = or_str (declared_param t ''gitreponame'') [],
               projectId = or_str (declared_param t ''gitlabprojectid'') [] \<rparr>
      else if truthy_str (declared_param t ''bitbucketpat'') then
        Some \<lparr> provider = Bitbucket, pat = or_str (declared_param t ''bitbucketpat'') [],
               repoUrl = or_str (declared_param t ''gitrepourl'') [],
               revision = or_str (declared_param t ''gitrevision'') [],
               repoName = or_str (declared_param t ''gitreponame'') [],
               projectId = or_str (declared_param t ''gitlabprojectid'') [] \<rparr>
      else None)"
  by (cases "params t") (simp_all add: extractGitParams_def declared_param_def truthy_str_def Let_def)

lemma declared_examples:
  "declared_param github_run ''githubpat'' = Some ''ghp_token''"
  "declared_param github_run ''gitrevision'' = Some ''abc123''"
  "declared_param github_run ''gitrepourl'' = Some ''https://github.com/acme/app.git''"
  "declared_param gitlab_run ''githubpat'' = Some []"
  "declared_param gitlab_run ''gitlabpat'' = Some ''glpat_token''"
  "declared_param gitlab_run ''gitrevision'' = Some ''def456''"
  "declared_param gitlab_run ''gitlabprojectid'' = Some ''acme/app''"
  "declared_param unknown_revision_run ''githubpat'' = Some ''ghp_token''"
  "declared_param unknown_revision_run ''gitrevision'' = Some ''N/A''"
  "declared_param bitbucket_run ''githubpat'' = None"
  "declared_param bitbucket_run ''gitlabpat'' = None"
  "declared_param bitbucket_run ''bitbucketpat'' = Some ''bb_token''"
  "declared_param bitbucket_run ''gitrevision'' = Some ''0a1b2c''"
  "declared_param bitbucket_run ''gitreponame'' = Some ''acme/app''"
  by (simp_all add: declared_param_def paramMap_of_def github_run_def gitlab_run_def
      unknown_revision_run_def bitbucket_run_def)

lemma string_examples:
  "strip_suffix ''/'' (strip_suffix ''.git'' (strip_github_host ''https://github.com/acme/app.git''))
     = ''acme/app''"
  "strip_suffix ''/'' (strip_suffix ''.git'' ''acme/app.git'') = ''acme/app''"
  "toLowerCase ''Failed'' = ''failed''"
  "toLowerCase ''TaskRunTimeout'' = ''taskruntimeout''"
  by code_simp+

lemma report_chosen:
  assumes "declared_param t ''gitrevision'' = Some sha" and "sha \<noteq> []" and "sha \<noteq> ''N/A''"
  shows "reportBackupCommitStatus (Some t) r =
     (let descr = (if isSuccess r then ''Pipeline completed successfully''
                   else ''Pipeline '' @ toLowerCase r) in
      if truthy_str (declared_param t ''githubpat'') then
        postGithubCommitStatus (or_str (declared_param t ''githubpat'') [])
          (or_str (declared_param t ''gitrepourl'') []) sha
          (if isSuccess r then ''success'' else ''failure'') descr
      else if truthy_str (declared_param t ''gitlabpat'') then
        postGitlabCommitStatus (or_str (declared_param t ''gitlabpat'') [])
          (if or_str (declared_param t ''gitlabprojectid'') [] \<noteq> []
           then or_str (declared_param t ''gitlabprojectid'') []
           else or_str (declared_param t ''gitreponame'') []) sha
          (if isSuccess r then ''success'' else ''failed'') descr
      else if truthy_str (declared_param t ''bitbucketpat'') then
        postBitbucketCommitStatus (or_str (declared_param t ''bitbucketpat'') [])
          (or_str (declared_param t ''gitreponame'') []) sha
          (if isSuccess r then ''SUCCESSFUL'' else ''FAILED'') descr
      else [])"
  using assms
  by (simp add: reportBackupCommitStatus_def extract_provider or_str_def Let_def)

text \<open>
  Claim C8: the commit status notifier. A token parameter is present when it is declared
  with a non-empty value. The provider is GitHub when \<open>githubpat\<close> is present, else
  GitLab when \<open>gitlabpat\<close> is, else Bitbucket when \<open>bitbucketpat\<close> is, else there is
  none. With no provider token, with no TaskRun, or with a revision that is absent, empty
  or \<open>N/A\<close>, no outbound request is made. Every request that is made carries the state
  of the chosen provider: \<open>success\<close>, \<open>success\<close>, \<open>SUCCESSFUL\<close> when the reason is
  \<open>Succeeded\<close> or \<open>TaskRunCancelled\<close>, and \<open>failure\<close>, \<open>failed\<close>, \<open>FAILED\<close> for
  every other reason. And the request is made: with a token and a usable revision, exactly
  one request goes to the chosen provider's endpoint for that revision, with that token,
  that state and the description of the outcome, provided the parameters name the
  repository the endpoint needs (for GitHub a repository URL that leaves an
  \<open>owner/repo\<close> path, for GitLab a project id or else a repository name, for Bitbucket a
  repository name).
\<close>

theorem C8_commit_status:
  "map_option provider (extractGitParams (Some t)) =
     (if truthy_str (declared_param t ''githubpat'') then Some Github
      else if truthy_str (declared_param t ''gitlabpat'') then Some Gitlab
      else if truthy_str (declared_param t ''bitbucketpat'') then Some Bitbucket
      else None)
   \<and> reportBackupCommitStatus None r = []
   \<and> ((\<not> truthy_str (declared_param t ''githubpat'')
         \<and> \<not> truthy_str (declared_param t ''gitlabpat'')
         \<and> \<not> truthy_str (declared_param t ''bitbucketpat''))
        \<or> \<not> truthy_str (declared_param t ''gitrevision'')
        \<or> declared_param t ''gitrevision'' = Some ''N/A''
        \<longrightarrow> reportBackupCommitStatus (Some t) r = [])
   \<and> (\<forall>p \<in> set (reportBackupCommitStatus (Some t) r).
         post_state p =
           (if truthy_str (declared_param t ''githubpat'')
            then (if r = ''Succeeded'' \<or> r = ''TaskRunCancelled''
                  then ''success'' else ''failure'')
            else if truthy_str (declared_param t ''gitlabpat'')
            then (if r = ''Succeeded'' \<or> r = ''TaskRunCancelled''
                  then ''success'' else ''failed'')
            else (if r = ''Succeeded'' \<or> r = ''TaskRunCancelled''
                  then ''SUCCESSFUL'' else ''FAILED'')))
   \<and> (declared_param t ''gitrevision'' = Some sha \<and> sha \<noteq> [] \<and> sha \<noteq> ''N/A''
        \<and> declared_param t ''githubpat'' = Some token \<and> token \<noteq> []
        \<and> declared_param t ''gitrepourl'' = Some url
        \<and> strip_suffix ''/'' (strip_suffix ''.git'' (strip_github_host url)) = ownerRepo
        \<and> ownerRepo \<noteq> [] \<and> CHR ''/'' \<in> set ownerRepo
        \<longrightarrow> reportBackupCommitStatus (Some t) r =
              [\<lparr> post_url = ''https://api.github.com/repos/'' @ ownerRepo @ ''/statuses/'' @ sha,
                 post_token = token,
                 post_state = (if r = ''Succeeded'' \<or> r = ''TaskRunCancelled''
                               then ''success'' else ''failure''),
                 post_description = (if r = ''Succeeded'' \<or> r = ''TaskRunCancelled''
                                     then ''Pipeline completed successfully''
                                     else ''Pipeline '' @ toLowerCase r) \<rparr>])
   \<and> (declared_param t ''gitrevision'' = Some sha \<and> sha \<noteq> [] \<and> sha \<noteq> ''N/A''
        \<and> \<not> truthy_str (declared_param t ''githubpat'')
        \<and> declared_param t ''gitlabpat'' = Some token \<and> token \<noteq> []
        \<and> (if or_str (declared_param t ''gitlabprojectid'') [] \<noteq> []
            then or_str (declared_param t ''gitlabprojectid'') []
            else or_str (declared_param t ''gitreponame'') []) = project
        \<and> project \<noteq> []
        \<longrightarrow> reportBackupCommitStatus (Some t) r =
              [\<lparr> post_url = ''https://gitlab.com/api/v4/projects/''
                            @ concat (map (\<lambda>c. if c = CHR ''/'' then ''%2F'' else [c]) project)
                            @ ''/statuses/'' @ sha,
                 post_token = token,
                 post_state = (if r = ''Succeeded'' \<or> r = ''TaskRunCancelled''
                               then ''success'' else ''failed''),
                 post_description = (if r = ''Succeeded'' \<or> r = ''TaskRunCancelled''
                                     then ''Pipeline completed successfully''
                                     else ''Pipeline '' @ toLowerCase r) \<rparr>])
   \<and> (declared_param t ''gitrevision'' = Some sha \<and> sha \<noteq> [] \<and> sha \<noteq> ''N/A''
        \<and> \<not> truthy_str (declared_param t ''githubpat'')
        \<and> \<not> truthy_str (declared_param t ''gitlabpat'')
        \<and> declared_param t ''bitbucketpat'' = Some token \<and> token \<noteq> []
        \<and> declared_param t ''gitreponame'' = Some repo \<and> repo \<noteq> []
        \<longrightarrow> reportBackupCommitStatus (Some t) r =
              [\<lparr> post_url = ''https://api.bitbucket.org/2.0/repositories/'' @ repo
                            @ ''/commit/'' @ sha @ ''/statuses/build'',
                 post_token = token,
                 post_state = (if r = ''Succeeded'' \<or> r = ''TaskRunCancelled''
                               then ''SUCCESSFUL'' else ''FAILED''),
                 post_description = (if r = ''Succeeded'' \<or> r = ''TaskRunCancelled''
                                     then ''Pipeline completed successfully''
                                     else ''Pipeline '' @ toLowerCase r) \<rparr>])"
proof (intro conjI)
  show "map_option provider (extractGitParams (Some t)) =
     (if truthy_str (declared_param t ''githubpat'') then Some Github
      else if truthy_str (declared_param t ''gitlabpat'') then Some Gitlab
      else if truthy_str (declared_param t ''bitbucketpat'') then Some Bitbucket
      else None)"
    by (simp add: extract_provider)
  show "reportBackupCommitStatus None r = []"
    by (simp add: reportBackupCommitStatus_def extractGitParams_def)
  show "(\<not> truthy_str (declared_param t ''githubpat'')
         \<and> \<not> truthy_str (declared_param t ''gitlabpat'')
         \<and> \<not> truthy_str (declared_param t ''bitbucketpat''))
        \<or> \<not> truthy_str (declared_param t ''gitrevision'')
        \<or> declared_param t ''gitrevision'' = Some ''N/A''
        \<longrightarrow> reportBackupCommitStatus (Some t) r = []"
    by (auto simp: reportBackupCommitStatus_def extract_provider truthy_str_def or_str_def
        split: option.splits)
  show "\<forall>p \<in> set (reportBackupCommitStatus (Some t) r).
         post_state p =
           (if truthy_str (declared_param t ''githubpat'')
            then (if r = ''Succeeded'' \<or> r = ''TaskRunCancelled''
                  then ''success'' else ''failure'')
            else if truthy_str (declared_param t ''gitlabpat'')
            then (if r = ''Succeeded'' \<or> r = ''TaskRunCancelled''
                  then ''success'' else ''failed'')
            else (if r = ''Succeeded'' \<or> r = ''TaskRunCancelled''
                  then ''SUCCESSFUL'' else ''FAILED''))"
  proof
    fix p
    assume p: "p \<in> set (reportBackupCommitStatus (Some t) r)"
    show "post_state p =
           (if truthy_str (declared_param t ''githubpat'')
            then (if r = ''Succeeded'' \<or> r = ''TaskRunCancelled''
                  then ''success'' else ''failure'')
            else if truthy_str (declared_param t ''gitlabpat'')
            then (if r = ''Succeeded'' \<or> r = ''TaskRunCancelled''
                  then ''success'' else ''failed'')
            else (if r = ''Succeeded'' \<or> r = ''TaskRunCancelled''
                  then ''SUCCESSFUL'' else ''FAILED''))"
    proof (cases "truthy_str (declared_param t ''githubpat'')")
      case True
      with p show ?thesis
        by (auto simp: reportBackupCommitStatus_def extract_provider isSuccess_def Let_def
            dest: post_states split: if_splits)
    next
      case False
      note gh = False
      show ?thesis
      proof (cases "truthy_str (declared_param t ''gitlabpat'')")
        case True
        with p gh show ?thesis
          by (auto simp: reportBackupCommitStatus_def extract_provider isSuccess_def Let_def
              dest: post_states split: if_splits)
      next
        case False
        with p gh show ?thesis
          by (auto simp: reportBackupCommitStatus_def extract_provider isSuccess_def Let_def
              dest: post_states split: if_splits)
      qed
    qed
  qed
  show "declared_param t ''gitrevision'' = Some sha \<and> sha \<noteq> [] \<and> sha \<noteq> ''N/A''
        \<and> declared_param t ''githubpat'' = Some token \<and> token \<noteq> []
        \<and> declared_param t ''gitrepourl'' = Some url
        \<and> strip_suffix ''/'' (strip_suffix ''.git'' (strip_github_host url)) = ownerRepo
        \<and> ownerRepo \<noteq> [] \<and> CHR ''/'' \<in> set ownerRepo
        \<longrightarrow> reportBackupCommitStatus (Some t) r =
              [\<lparr> post_url = ''https://api.github.com/repos/'' @ ownerRepo @ ''/statuses/'' @ sha,
                 post_token = token,
                 post_state = (if r = ''Succeeded'' \<or> r = ''TaskRunCancelled''
                               then ''success'' else ''failure''),
                 post_description = (if r = ''Succeeded'' \<or> r = ''TaskRunCancelled''
                                     then ''Pipeline completed successfully''
                                     else ''Pipeline '' @ toLowerCase r) \<rparr>]"
  proof
    assume a: "declared_param t ''gitrevision'' = Some sha \<and> sha \<noteq> [] \<and> sha \<noteq> ''N/A''
        \<and> declared_param t ''githubpat'' = Some token \<and> token \<noteq> []
        \<and> declared_param t ''gitrepourl'' = Some url
        \<and> strip_suffix ''/'' (strip_suffix ''.git'' (strip_github_host url)) = ownerRepo
        \<and> ownerRepo \<noteq> [] \<and> CHR ''/'' \<in> set ownerRepo"
    then have "url \<noteq> []"
      by (auto simp: strip_suffix_def)
    with a show "reportBackupCommitStatus (Some t) r =
              [\<lparr> post_url = ''https://api.github.com/repos/'' @ ownerRepo @ ''/statuses/'' @ sha,
                 post_token = token,
                 post_state = (if r = ''Succeeded'' \<or> r = ''TaskRunCancelled''
                               then ''success'' else ''failure''),
                 post_description = (if r = ''Succeeded'' \<or> r = ''TaskRunCancelled''
                                     then ''Pipeline completed successfully''
                                     else ''Pipeline '' @ toLowerCase r) \<rparr>]"
      by (simp add: report_chosen [of t sha r] truthy_str_def or_str_def isSuccess_def
          postGithubCommitStatus_def Let_def)
  qed
  show "declared_param t ''gitrevision'' = Some sha \<and> sha \<noteq> [] \<and> sha \<noteq> ''N/A''
        \<and> \<not> truthy_str (declared_param t ''githubpat'')
        \<and> declared_param t ''gitlabpat'' = Some token \<and> token \<noteq> []
        \<and> (if or_str (declared_param t ''gitlabprojectid'') [] \<noteq> []
            then or_str (declared_param t ''gitlabprojectid'') []
            else or_str (declared_param t ''gitreponame'') []) = project
        \<and> project \<noteq> []
        \<longrightarrow> reportBackupCommitStatus (Some t) r =
              [\<lparr> post_url = ''https://gitlab.com/api/v4/projects/''
                            @ concat (map (\<lambda>c. if c = CHR ''/'' then ''%2F'' else [c]) project)
                            @ ''/statuses/'' @ sha,
                 post_token = token,
                 post_state = (if r = ''Succeeded'' \<or> r = ''TaskRunCancelled''
                               then ''success'' else ''failed''),
                 post_description = (if r = ''Succeeded'' \<or> r = ''TaskRunCancelled''
                                     then ''Pipeline completed successfully''
                                     else ''Pipeline '' @ toLowerCase r) \<rparr>]"
    by (auto simp: report_chosen [of t sha r] truthy_str_def isSuccess_def
        postGitlabCommitStatus_def Let_def or_str_def [of "Some token"])
  show "declared_param t ''gitrevision'' = Some sha \<and> sha \<noteq> [] \<and> sha \<noteq> ''N/A''
        \<and> \<not> truthy_str (declared_param t ''githubpat'')
        \<and> \<not> truthy_str (declared_param t ''gitlabpat'')
        \<and> declared_param t ''bitbucketpat'' = Some token \<and> token \<noteq> []
        \<and> declared_param t ''gitreponame'' = Some repo \<and> repo \<noteq> []
        \<longrightarrow> reportBackupCommitStatus (Some t) r =
              [\<lparr> post_url = ''https://api.bitbucket.org/2.0/repositories/'' @ repo
                            @ ''/commit/'' @ sha @ ''/statuses/build'',
                 post_token = token,
                 post_state = (if r = ''Succeeded'' \<or> r = ''TaskRunCancelled''
                               then ''SUCCESSFUL'' else ''FAILED''),
                 post_description = (if r = ''Succeeded'' \<or> r = ''TaskRunCancelled''
                                     then ''Pipeline completed successfully''
                                     else ''Pipeline '' @ toLowerCase r) \<rparr>]"
    by (auto simp: report_chosen [of t sha r] truthy_str_def isSuccess_def
        postBitbucketCommitStatus_def Let_def or_str_def)
qed

theorem C8_commit_status_witness:
  "map_option provider (extractGitParams (Some github_run)) = Some Github
   \<and> map_option provider (extractGitParams (Some gitlab_run)) = Some Gitlab
   \<and> map_option provider (extractGitParams (Some bitbucket_run)) = Some Bitbucket
   \<and> reportBackupCommitStatus (Some unknown_revision_run) ''Failed'' = []
   \<and> reportBackupCommitStatus (Some github_run) ''Succeeded''
       = [\<lparr> post_url = ''https://api.github.com/repos/acme/app/statuses/abc123'',
            post_token = ''ghp_token'', post_state = ''success'',
            post_description = ''Pipeline completed successfully'' \<rparr>]
   \<and> reportBackupCommitStatus (Some gitlab_run) ''TaskRunTimeout''
       = [\<lparr> post_url = ''https://gitlab.com/api/v4/projects/acme%2Fapp/statuses/def456'',
            post_token = ''glpat_token'', post_state = ''failed'',
            post_description = ''Pipeline taskruntimeout'' \<rparr>]
   \<and> reportBackupCommitStatus (Some bitbucket_run) ''TaskRunCancelled''
       = [\<lparr> post_url = ''https://api.bitbucket.org/2.0/repositories/acme/app/commit/0a1b2c/statuses/build'',
            post_token = ''bb_token'', post_state = ''SUCCESSFUL'',
            post_description = ''Pipeline completed successfully'' \<rparr>]
   \<and> reportBackupCommitStatus (Some bitbucket_run) ''Failed''
       = [\<lparr> post_url = ''https://api.bitbucket.org/2.0/repositories/acme/app/commit/0a1b2c/statuses/build'',
            post_token = ''bb_token'', post_state = ''FAILED'',
            post_description = ''Pipeline failed'' \<rparr>]"
  using C8_commit_status [of github_run "''Succeeded''" "''abc123''" "''ghp_token''"
      "''https://github.com/acme/app.git''" "''acme/app''" "''acme/app''" "''acme/app''"]
    C8_commit_status [of gitlab_run "''TaskRunTimeout''" "''def456''" "''glpat_token''"
      "''https://github.com/acme/app.git''" "''acme/app''" "''acme/app''" "''acme/app''"]
    C8_commit_status [of bitbucket_run "''TaskRunCancelled''" "''0a1b2c''" "''bb_token''"
      "''https://github.com/acme/app.git''" "''acme/app''" "''acme/app''" "''acme/app''"]
    C8_commit_status [of bitbucket_run "''Failed''" "''0a1b2c''" "''bb_token''"
      "''https://github.com/acme/app.git''" "''acme/app''" "''acme/app''" "''acme/app''"]
    C8_commit_status [of unknown_revision_run "''Failed''" "''abc123''" "''ghp_token''"
      "''https://github.com/acme/app.git''" "''acme/app''" "''acme/app''" "''acme/app''"]
  by (simp add: declared_examples string_examples truthy_str_def or_str_def)

section \<open>The start-time filter and the reconnect\<close>

lemma untimed_processed: "process_event untimed_event (Some github_run) = github_effects"
  by code_simp

lemma untimed_passes: "\<not> predates now untimed_event"
  by (simp add: predates_def eventTime_of_def untimed_event_def)

lemma untimed_on_event: "on_event now untimed_event (Some github_run) = github_effects"
  by (simp add: on_event_def untimed_passes untimed_processed)

lemma epoch_on_event:
  "eventTime_of epoch_event = Some (Num 0) \<and> on_event 1000 epoch_event None = [GetTaskRun ''run-1'']"
  by (simp add: on_event_def predates_def eventTime_of_def epoch_event_def process_event_def
      watched_reasons_def)

lemma on_event_old:
  assumes "eventTime_of event = Some (Num n)" and "n \<noteq> 0" and "n < now"
  shows "on_event now event found = []"
  using assms by (simp add: on_event_def predates_def)

lemma reconnect:
  assumes "timers w = []" and "t + 2000 \<le> t'"
  shows "watch_step (watch_step w (TransportError t)) (TimerFires t' False)
         = w\<lparr>watchRequest := True, since := Some t'\<rparr>"
  using assms by (simp add: startWatching_def)

lemma old_event_time: "eventTime_of old_event = Some (Num 4000)"
  by (simp add: eventTime_of_def old_event_def)

lemma untimed_fields:
  "lastTimestamp untimed_event = None" "firstTimestamp untimed_event = None"
  by (simp_all add: untimed_event_def)

text \<open>
  Claim C9, as the specification states it, fails for events that carry no timestamp: the
  filter lets them through whatever the threshold is, so such an event delivered before a
  transport error is processed again when it is delivered after the reconnect. The same
  holds for a timestamp that reads as zero, which the filter takes for a missing one: an
  event stamped at the epoch is processed although it predates the subscription.
\<close>

theorem C9_untimed_counterexample:
  "performed (foldl watch_step idle_watcher
       [Start 1000 False, Deliver untimed_event (Some github_run), TransportError 5000,
        TimerFires 7000 False, Deliver untimed_event (Some github_run)])
     = github_effects @ github_effects
   \<and> eventTime_of epoch_event = Some (Num 0)
   \<and> on_event 1000 epoch_event None = [GetTaskRun ''run-1'']"
  by (simp add: idle_watcher_def watchBuildEvents_def startWatching_def untimed_on_event
      epoch_on_event)

text \<open>
  Claim C9, amended: for every delivered build event whose timestamp is not zero and is
  earlier than the current subscription's start time, the watcher performs no side
  effects. After a transport error exactly one restart is pending, due 2000 ms after the
  error; nothing restarts before it is due, and when it fires at time \<open>t'\<close> the
  subscription is renewed with the threshold \<open>t'\<close> and no restart is left pending. An
  event with a non-zero timestamp earlier than \<open>t'\<close> that is delivered after the
  reconnect causes no side effects, so timestamped events from before the error are not
  processed again.
\<close>

theorem C9_watcher:
  "(eventTime_of event = Some (Num n) \<and> n \<noteq> 0 \<and> n < now \<longrightarrow>
      on_event now event found = []
      \<and> (since w = Some now \<longrightarrow> watch_step w (Deliver event found) = w))
   \<and> (timers w = [] \<longrightarrow>
      timers (watch_step w (TransportError t)) = [t + 2000]
      \<and> (t' < t + 2000 \<longrightarrow>
           watch_step (watch_step w (TransportError t)) (TimerFires t' throws)
             = watch_step w (TransportError t))
      \<and> (t + 2000 \<le> t' \<longrightarrow>
           watch_step (watch_step w (TransportError t)) (TimerFires t' False)
             = w\<lparr>watchRequest := True, since := Some t'\<rparr>
           \<and> watch_step (w\<lparr>watchRequest := True, since := Some t'\<rparr>) (TimerFires t'' throws)
             = w\<lparr>watchRequest := True, since := Some t'\<rparr>
           \<and> (eventTime_of event = Some (Num n) \<and> n \<noteq> 0 \<and> n < t' \<longrightarrow>
                performed (foldl watch_step w
                  [TransportError t, TimerFires t' False, Deliver event found])
                  = performed w)))"
  by (auto simp: on_event_old reconnect startWatching_def)

theorem C9_watcher_witness:
  "on_event 5000 old_event (Some github_run) = []
   \<and> timers (watch_step (idle_watcher\<lparr>watchRequest := True, since := Some 1000\<rparr>)
        (TransportError 5000)) = [7000]
   \<and> watch_step (watch_step (idle_watcher\<lparr>watchRequest := True, since := Some 1000\<rparr>)
        (TransportError 5000)) (TimerFires 6999 False)
       = watch_step (idle_watcher\<lparr>watchRequest := True, since := Some 1000\<rparr>)
           (TransportError 5000)
   \<and> watch_step (watch_step (idle_watcher\<lparr>watchRequest := True, since := Some 1000\<rparr>)
        (TransportError 5000)) (TimerFires 7000 False)
       = idle_watcher\<lparr>watchRequest := True, since := Some 7000\<rparr>
   \<and> performed (foldl watch_step (idle_watcher\<lparr>watchRequest := True, since := Some 1000\<rparr>)
        [TransportError 5000, TimerFires 7000 False, Deliver old_event (Some github_run)]) = []"
  using C9_watcher [of old_event 4000 5000 "Some github_run"
      "idle_watcher\<lparr>watchRequest := True, since := Some 1000\<rparr>" 5000 6999 False 0]
    C9_watcher [of old_event 4000 5000 "Some github_run"
      "idle_watcher\<lparr>watchRequest := True, since := Some 1000\<rparr>" 5000 7000 False 0]
  by (simp add: idle_watcher_def old_event_time startWatching_def)

section \<open>Events without a timestamp\<close>

text \<open>
  Claim C10: a delivered event that carries neither \<open>lastTimestamp\<close> nor
  \<open>firstTimestamp\<close> is never dropped by the start-time filter. Whatever the threshold,
  handling it is exactly \<open>process_event\<close>, which begins with the reason filter and, for
  a watched reason, looks the TaskRun up; this holds for the running subscription and
  after a reconnect alike.
\<close>

theorem C10_untimed_event:
  "lastTimestamp event = None \<and> firstTimestamp event = None \<longrightarrow>
     on_event now event found = process_event event found
     \<and> (since w = Some now \<longrightarrow>
          performed (watch_step w (Deliver event found))
            = performed w @ process_event event found)
     \<and> (timers w = [] \<and> t + 2000 \<le> t' \<longrightarrow>
          performed (foldl watch_step w
            [TransportError t, TimerFires t' False, Deliver event found])
            = performed w @ process_event event found)
     \<and> (\<forall>r. reason event = Some r \<and> r \<in> set watched_reasons \<longrightarrow>
          hd (process_event event found) = GetTaskRun (involvedObjectName event))"
  by (auto simp: on_event_def predates_def eventTime_of_def startWatching_def process_event_def)

theorem C10_untimed_event_witness:
  "on_event 9000 untimed_event (Some github_run) = github_effects
   \<and> performed (foldl watch_step (idle_watcher\<lparr>watchRequest := True, since := Some 1000\<rparr>)
        [TransportError 5000, TimerFires 7000 False, Deliver untimed_event (Some github_run)])
       = github_effects"
  using C10_untimed_event [of untimed_event 9000 "Some github_run"
      "idle_watcher\<lparr>watchRequest := True, since := Some 1000\<rparr>" 5000 7000]
  by (simp add: untimed_processed untimed_fields idle_watcher_def startWatching_def)

end
